theory Spec2Isabelle
  imports Complex_Main
begin

section \<open>Values of the numeric layer\<close>

text \<open>
  The operators of \<^verbatim>\<open>pytensor/sparse/basic.py\<close> evaluate on compressed sparse
  matrices and on dense arrays. A compressed matrix is the record of its storage format,
  its data vector, its minor-index vector, its pointer vector and its shape pair. Index
  vectors hold integers (they arrive as 32-bit or 64-bit arrays); the element type of the
  data vector is a type parameter. Arithmetic on the entries is exact: the rounding of
  floating-point dtypes is not modelled.
\<close>

datatype fmt = CSR | CSC

record 'a csmatrix =
  format :: fmt
  data :: "'a list"
  indices :: "int list"
  indptr :: "int list"
  shape :: "int \<times> int"

text \<open>
  Every \<^verbatim>\<open>raise\<close> and every failed \<^verbatim>\<open>assert\<close> of the source is a value.
  A \<^verbatim>\<open>ValueError\<close> carries its message and the shapes reported with it.
\<close>

datatype error =
    ValueError string "int list list"
  | IndexError
  | AssertionError
  | TypeError string
  | AttributeError
  | Exception string

definition bind_err :: "error + 'a \<Rightarrow> ('a \<Rightarrow> error + 'b) \<Rightarrow> error + 'b" where
  "bind_err r f = (case r of Inl e \<Rightarrow> Inl e | Inr v \<Rightarrow> f v)"

text \<open>
  \<^verbatim>\<open>np.asarray(v, dtype="int32")\<close>: each entry keeps its low 32 bits, read as a
  two's complement number, so a value outside the 32-bit range wraps around, as in
  NumPy's conversion between integer arrays.
\<close>

definition int32 :: "int \<Rightarrow> int" where
  "int32 x = (x + 2147483648) mod 4294967296 - 2147483648"

definition asarray_int32 :: "int list \<Rightarrow> int list" where
  "asarray_int32 xs = map int32 xs"

definition in_int32 :: "int \<Rightarrow> bool" where
  "in_int32 x \<longleftrightarrow> - 2147483648 \<le> x \<and> x < 2147483648"

section \<open>Property extraction and construction from parts\<close>

text \<open>
  \<^verbatim>\<open>CSMProperties.perform\<close>: the four outputs are the data vector as it is, and
  the index vector, the pointer vector and the shape tuple, each converted to a 32-bit
  integer array (the outputs of the node are declared as 32-bit integer vectors).
\<close>

definition CSMProperties_perform ::
  "'a csmatrix \<Rightarrow> 'a list \<times> int list \<times> int list \<times> int list" where
  "CSMProperties_perform csm =
     (data csm,
      asarray_int32 (indices csm),
      asarray_int32 (indptr csm),
      asarray_int32 [fst (shape csm), snd (shape csm)])"

text \<open>
  The sparse library's constructor \<^verbatim>\<open>csc_matrix((data, indices, indptr), shape)\<close>
  (and \<^verbatim>\<open>csr_matrix\<close>) is a primitive of the numeric library. \<open>scipy_cs_matrix\<close>
  is the matrix it stores when it accepts parts that need no pruning: the three vectors
  and the two entries of the shape under the class of the requested format. The
  validation that precedes the storing is \<open>scipy_cs_matrix_init\<close> below.
\<close>

definition scipy_cs_matrix ::
  "fmt \<Rightarrow> 'a list \<Rightarrow> int list \<Rightarrow> int list \<Rightarrow> int list \<Rightarrow> 'a csmatrix" where
  "scipy_cs_matrix f d ix ip sh =
     \<lparr>format = f, data = d, indices = ix, indptr = ip, shape = (sh ! 0, sh ! 1)\<rparr>"

text \<open>
  \<^verbatim>\<open>CSM.perform\<close>, for the operator \<^verbatim>\<open>CSM(format)\<close>, on parts that the
  library's constructor accepts as they are (the parts of a matrix of the library are
  such parts). The data and index inputs are vectors, so their shapes are equal exactly
  when their lengths are. \<open>CSM_perform_checked\<close> below is the evaluation on arbitrary
  parts, with the validation of the constructor.
\<close>

definition CSM_perform ::
  "fmt \<Rightarrow> 'a list \<Rightarrow> int list \<Rightarrow> int list \<Rightarrow> int list \<Rightarrow> error + 'a csmatrix" where
  "CSM_perform f d ix ip sh =
     (if length sh \<noteq> 2 then
        Inl (ValueError ''Shape should be an array of length 2'' [])
      else if length d \<noteq> length ix then
        Inl (ValueError ''Data must have the same number of elements as indices''
               [[int (length d)], [int (length ix)]])
      else (case f of
              CSC \<Rightarrow> Inr (scipy_cs_matrix CSC d ix ip sh)
            | CSR \<Rightarrow> Inr (scipy_cs_matrix CSR d ix ip sh)))"

text \<open>The composition of the round trip: extract the four parts, then construct.\<close>

definition csm_roundtrip :: "'a csmatrix \<Rightarrow> error + 'a csmatrix" where
  "csm_roundtrip m =
     (case CSMProperties_perform m of
        (d, ix, ip, sh) \<Rightarrow> CSM_perform (format m) d ix ip sh)"

text \<open>
  The invariant of the library's compressed formats that the round trip relies on:
  the data vector and the index vector have the same length.
\<close>

definition same_length :: "'a csmatrix \<Rightarrow> bool" where
  "same_length m \<longleftrightarrow> length (data m) = length (indices m)"

definition fits_int32 :: "'a csmatrix \<Rightarrow> bool" where
  "fits_int32 m \<longleftrightarrow>
     list_all in_int32 (indices m) \<and> list_all in_int32 (indptr m) \<and>
     in_int32 (fst (shape m)) \<and> in_int32 (snd (shape m))"

section \<open>Indexing and loops of the numeric layer\<close>

text \<open>
  Indexing a NumPy vector of length \<open>n\<close> with an integer: an index in \<open>[0, n)\<close>
  is the position, an index in \<open>[-n, 0)\<close> counts from the end, anything else raises
  \<^verbatim>\<open>IndexError\<close>.
\<close>

definition np_index :: "nat \<Rightarrow> int \<Rightarrow> error + nat" where
  "np_index n i =
     (if 0 \<le> i \<and> i < int n then Inr (nat i)
      else if - int n \<le> i \<and> i < 0 then Inr (nat (i + int n))
      else Inl IndexError)"

definition getitem :: "'a list \<Rightarrow> int \<Rightarrow> error + 'a" where
  "getitem xs i = bind_err (np_index (length xs) i) (\<lambda>k. Inr (xs ! k))"

definition setitem :: "'a list \<Rightarrow> int \<Rightarrow> 'a \<Rightarrow> error + 'a list" where
  "setitem xs i v = bind_err (np_index (length xs) i) (\<lambda>k. Inr (xs[k := v]))"

text \<open>\<^verbatim>\<open>range(a, b)\<close>, empty when \<open>b \<le> a\<close>.\<close>

definition py_range :: "int \<Rightarrow> int \<Rightarrow> int list" where
  "py_range a b = [a..b - 1]"

text \<open>A \<^verbatim>\<open>for\<close> loop over a list of index values; the first error ends it.\<close>

fun for_loop :: "'i list \<Rightarrow> ('i \<Rightarrow> 's \<Rightarrow> error + 's) \<Rightarrow> 's \<Rightarrow> error + 's" where
  "for_loop [] body s = Inr s"
| "for_loop (i # rest) body s = bind_err (body i s) (for_loop rest body)"

text \<open>\<^verbatim>\<open>np.zeros(n)\<close> for an integer \<open>n\<close>; a negative length is refused.\<close>

definition np_zeros :: "int \<Rightarrow> error + ('a::zero) list" where
  "np_zeros n =
     (if n < 0 then Inl (ValueError ''negative dimensions are not allowed'' [])
      else Inr (replicate (nat n) 0))"

section \<open>The pattern-remap gradient operator\<close>

text \<open>
  \<^verbatim>\<open>CSMGrad.perform\<close>. The three inner loops of one major index: scatter the
  incoming gradient's entries of that major index into the buffer \<open>g_row\<close>, gather the
  buffer at the forward pattern's indices into \<open>gout_data\<close>, and clear the buffer at
  the scattered positions.
\<close>

definition scatter_row ::
  "'a list \<Rightarrow> int list \<Rightarrow> int \<Rightarrow> int \<Rightarrow> ('a::comm_monoid_add) list \<Rightarrow> error + 'a list" where
  "scatter_row g_data g_indices lo hi g_row =
     for_loop (py_range lo hi)
       (\<lambda>j_ptr g_row.
          bind_err (getitem g_indices j_ptr) (\<lambda>c.
          bind_err (getitem g_row c) (\<lambda>old.
          bind_err (getitem g_data j_ptr) (\<lambda>v.
          setitem g_row c (old + v)))))
       g_row"

definition gather_row ::
  "int list \<Rightarrow> 'a list \<Rightarrow> int \<Rightarrow> int \<Rightarrow> 'a list \<Rightarrow> error + 'a list" where
  "gather_row x_indices g_row lo hi gout_data =
     for_loop (py_range lo hi)
       (\<lambda>j_ptr gout_data.
          bind_err (getitem x_indices j_ptr) (\<lambda>c.
          bind_err (getitem g_row c) (\<lambda>v.
          setitem gout_data j_ptr v)))
       gout_data"

definition clear_row ::
  "int list \<Rightarrow> int \<Rightarrow> int \<Rightarrow> ('a::zero) list \<Rightarrow> error + 'a list" where
  "clear_row g_indices lo hi g_row =
     for_loop (py_range lo hi)
       (\<lambda>j_ptr g_row.
          bind_err (getitem g_indices j_ptr) (\<lambda>c.
          setitem g_row c 0))
       g_row"

definition csm_grad_major ::
  "int list \<Rightarrow> int list \<Rightarrow> 'a list \<Rightarrow> int list \<Rightarrow> int list \<Rightarrow> int \<Rightarrow>
   ('a::comm_monoid_add) list \<times> 'a list \<Rightarrow> error + ('a list \<times> 'a list)" where
  "csm_grad_major x_indices x_indptr g_data g_indices g_indptr i st =
     (case st of (g_row, gout_data) \<Rightarrow>
        bind_err (getitem g_indptr i) (\<lambda>g0.
        bind_err (getitem g_indptr (i + 1)) (\<lambda>g1.
        bind_err (scatter_row g_data g_indices g0 g1 g_row) (\<lambda>g_row.
        bind_err (getitem x_indptr i) (\<lambda>x0.
        bind_err (getitem x_indptr (i + 1)) (\<lambda>x1.
        bind_err (gather_row x_indices g_row x0 x1 gout_data) (\<lambda>gout_data.
        bind_err (clear_row g_indices g0 g1 g_row) (\<lambda>g_row.
        Inr (g_row, gout_data)))))))))"

definition CSMGrad_perform ::
  "'a list \<Rightarrow> int list \<Rightarrow> int list \<Rightarrow> int list \<Rightarrow>
   'a list \<Rightarrow> int list \<Rightarrow> int list \<Rightarrow> int list \<Rightarrow> error + ('a::comm_monoid_add) list" where
  "CSMGrad_perform x_data x_indices x_indptr x_shape g_data g_indices g_indptr g_shape =
     bind_err (getitem x_shape 0) (\<lambda>s0.
     bind_err (if int (length x_indptr) - 1 = s0 then getitem x_shape 1 else Inr s0) (\<lambda>sp_dim.
     bind_err (np_zeros sp_dim) (\<lambda>g_row.
     bind_err (for_loop (py_range 0 (int (length x_indptr) - 1))
                 (csm_grad_major x_indices x_indptr g_data g_indices g_indptr)
                 (g_row, replicate (length x_data) 0)) (\<lambda>st.
     Inr (snd st)))))"

text \<open>
  What the claim says the operator computes at a stored position of the forward
  pattern: the sum of the incoming gradient's stored values of the same major index
  (the positions \<open>lo \<le> q < hi\<close> of its vectors) whose minor index is \<open>c\<close>.
\<close>

definition stored_sum :: "('a::comm_monoid_add) list \<Rightarrow> int list \<Rightarrow> nat \<Rightarrow> nat \<Rightarrow> int \<Rightarrow> 'a" where
  "stored_sum g_data g_indices lo hi c =
     sum_list (map (\<lambda>q. if g_indices ! q = c then g_data ! q else 0) [lo..<hi])"

text \<open>
  A valid compressed pattern over \<open>n\<close> stored entries with minor dimension \<open>minor\<close>:
  the pointer vector is not empty, starts at a position that is not negative, does not
  decrease and ends within the \<open>n\<close> entries; there are \<open>n\<close> minor indices, each in
  \<open>[0, minor)\<close>.
\<close>

definition pattern_ok :: "int list \<Rightarrow> int list \<Rightarrow> nat \<Rightarrow> int \<Rightarrow> bool" where
  "pattern_ok ip ix n minor \<longleftrightarrow>
     ip \<noteq> [] \<and> sorted ip \<and> 0 \<le> hd ip \<and> last ip \<le> int n \<and>
     length ix = n \<and> list_all (\<lambda>c. 0 \<le> c \<and> c < minor) ix"

text \<open>The major and the minor dimension of a shape vector under a format.\<close>

definition major_dim :: "fmt \<Rightarrow> int list \<Rightarrow> int" where
  "major_dim f sh = (case f of CSR \<Rightarrow> sh ! 0 | CSC \<Rightarrow> sh ! 1)"

definition minor_dim :: "fmt \<Rightarrow> int list \<Rightarrow> int" where
  "minor_dim f sh = (case f of CSR \<Rightarrow> sh ! 1 | CSC \<Rightarrow> sh ! 0)"

section \<open>Structured dot product\<close>

text \<open>
  A value of the numeric layer other than a compressed matrix is a dense array: its
  shape and its entries in row-major order. \<^verbatim>\<open>x.shape[k]\<close> raises
  \<^verbatim>\<open>IndexError\<close> when the shape has no entry \<open>k\<close>.
\<close>

datatype 'a array = Sparse "'a csmatrix" | Dense "int list" "'a list"

fun array_shape :: "'a array \<Rightarrow> int list" where
  "array_shape (Sparse m) = [fst (shape m), snd (shape m)]"
| "array_shape (Dense sh xs) = sh"

fun is_sparse :: "'a array \<Rightarrow> bool" where
  "is_sparse (Sparse m) = True"
| "is_sparse (Dense sh xs) = False"

definition is_dense :: "'a array \<Rightarrow> bool" where
  "is_dense v = (\<not> is_sparse v)"

definition ndim :: "'a array \<Rightarrow> nat" where
  "ndim v = length (array_shape v)"

definition shape_at :: "int list \<Rightarrow> nat \<Rightarrow> error + int" where
  "shape_at sh k = (if k < length sh then Inr (sh ! k) else Inl IndexError)"

text \<open>\<^verbatim>\<open>np.expand_dims(v, 1)\<close> on a dense vector: a new axis of length 1 at position 1.\<close>

fun expand_dims_1 :: "'a array \<Rightarrow> 'a array" where
  "expand_dims_1 (Dense sh xs) = Dense (take 1 sh @ [1] @ drop 1 sh) xs"
| "expand_dims_1 (Sparse m) = Sparse m"

text \<open>
  \<^verbatim>\<open>StructuredDot.perform\<close>. The product \<^verbatim>\<open>a * b\<close> is computed by the sparse
  library; it is the parameter \<open>mul\<close>. The flag \<open>out_sparse\<close> says whether the
  node's output type is a sparse type (it is when \<open>b\<close> is a sparse variable).
\<close>

definition StructuredDot_perform ::
  "('a csmatrix \<Rightarrow> 'a array \<Rightarrow> 'a array) \<Rightarrow> bool \<Rightarrow> 'a csmatrix \<Rightarrow> 'a array \<Rightarrow> error + 'a array" where
  "StructuredDot_perform mul out_sparse a b =
     bind_err (shape_at (array_shape b) 0) (\<lambda>b0.
     if snd (shape a) \<noteq> b0 then
       Inl (ValueError ''shape mismatch in StructuredDot.perform''
              [[fst (shape a), snd (shape a)], array_shape b])
     else
       let variable = mul a b in
       if out_sparse then
         (if is_sparse variable then Inr variable else Inl AssertionError)
       else if \<not> is_dense variable then Inl AssertionError
       else if ndim variable \<noteq> 1 \<and> ndim variable \<noteq> 2 then
         Inl (Exception ''Output of structured dot should be a matrix (ndim=2)'')
       else
         let variable = (if ndim variable = 1 then expand_dims_1 variable else variable) in
         if ndim variable \<noteq> 2 then Inl AssertionError
         else
           bind_err (shape_at (array_shape b) 1) (\<lambda>b1.
           if array_shape variable \<noteq> [fst (shape a), b1] then
             (if b0 = 1 then
                Inl (Exception ''a.shape, b.shape, variable.shape? scipy.csc_matrix.dot bug with singleton dimensions'')
              else Inl (Exception ''a.shape, b.shape, variable.shape?''))
           else Inr variable))"

section \<open>Structured gradient of the structured dot product\<close>

text \<open>
  In the gradient operators the right operand \<open>b\<close> and the output gradient \<open>g_ab\<close>
  are dense matrices, given as their lists of rows. \<^verbatim>\<open>np.dot\<close> of two vectors is
  their inner product; vectors of different lengths are refused.
\<close>

definition np_dot :: "'a list \<Rightarrow> 'a list \<Rightarrow> error + ('a::comm_semiring_0)" where
  "np_dot u v =
     (if length u \<noteq> length v then
        Inl (ValueError ''shapes not aligned'' [[int (length u)], [int (length v)]])
      else Inr (sum_list (map2 (*) u v)))"

text \<open>\<^verbatim>\<open>StructuredDotGradCSR.perform\<close>: the outer loop runs over the rows of \<open>a\<close>.\<close>

definition StructuredDotGradCSR_perform ::
  "int list \<Rightarrow> int list \<Rightarrow> 'a list list \<Rightarrow> 'a list list \<Rightarrow> error + ('a::comm_semiring_0) list" where
  "StructuredDotGradCSR_perform a_indices a_indptr b g_ab =
     for_loop (py_range 0 (int (length a_indptr) - 1))
       (\<lambda>i g_a_data.
          bind_err (getitem a_indptr i) (\<lambda>ind0.
          bind_err (getitem a_indptr (i + 1)) (\<lambda>ind1.
          for_loop (py_range ind0 ind1)
            (\<lambda>j_idx g_a_data.
               bind_err (getitem a_indices j_idx) (\<lambda>j.
               bind_err (getitem g_ab i) (\<lambda>g_row.
               bind_err (getitem b j) (\<lambda>b_row.
               bind_err (np_dot g_row b_row) (\<lambda>dot_val.
               setitem g_a_data j_idx dot_val)))))
            g_a_data)))
       (replicate (length a_indices) 0)"

text \<open>\<^verbatim>\<open>StructuredDotGradCSC.perform\<close>: the outer loop runs over the columns of \<open>a\<close>.\<close>

definition StructuredDotGradCSC_perform ::
  "int list \<Rightarrow> int list \<Rightarrow> 'a list list \<Rightarrow> 'a list list \<Rightarrow> error + ('a::comm_semiring_0) list" where
  "StructuredDotGradCSC_perform a_indices a_indptr b g_ab =
     for_loop (py_range 0 (int (length a_indptr) - 1))
       (\<lambda>j g_a_data.
          bind_err (getitem a_indptr j) (\<lambda>ind0.
          bind_err (getitem a_indptr (j + 1)) (\<lambda>ind1.
          for_loop (py_range ind0 ind1)
            (\<lambda>i_idx g_a_data.
               bind_err (getitem a_indices i_idx) (\<lambda>i.
               bind_err (getitem g_ab i) (\<lambda>g_row.
               bind_err (getitem b j) (\<lambda>b_row.
               bind_err (np_dot g_row b_row) (\<lambda>dot_val.
               setitem g_a_data i_idx dot_val)))))
            g_a_data)))
       (replicate (length a_indices) 0)"

text \<open>
  \<^verbatim>\<open>structured_dot_grad\<close> builds the graph
  \<^verbatim>\<open>CSx(sdgcsx(csm_indices(A), csm_indptr(A), B, ga), csm_indices(A), csm_indptr(A), csm_shape(A))\<close>;
  the definition is the value of that graph at given values of its three inputs.
\<close>

definition structured_dot_grad ::
  "'a csmatrix \<Rightarrow> 'a list list \<Rightarrow> 'a list list \<Rightarrow> error + ('a::comm_semiring_0) csmatrix" where
  "structured_dot_grad sparse_A dense_B ga =
     (case CSMProperties_perform sparse_A of
        (a_data, a_indices, a_indptr, a_shape) \<Rightarrow>
          (case format sparse_A of
             CSC \<Rightarrow>
               bind_err (StructuredDotGradCSC_perform a_indices a_indptr dense_B ga) (\<lambda>g_A_data.
               CSM_perform CSC g_A_data a_indices a_indptr a_shape)
           | CSR \<Rightarrow>
               bind_err (StructuredDotGradCSR_perform a_indices a_indptr dense_B ga) (\<lambda>g_A_data.
               CSM_perform CSR g_A_data a_indices a_indptr a_shape)))"

text \<open>
  The brute-force dense gradient \<^verbatim>\<open>output_grad @ B.T\<close>, for comparison: the
  transpose of a matrix with \<open>n\<close> columns, and the product with a matrix of \<open>p\<close> columns.
\<close>

definition mat_transpose :: "nat \<Rightarrow> 'a list list \<Rightarrow> 'a list list" where
  "mat_transpose n m = map (\<lambda>t. map (\<lambda>row. row ! t) m) [0..<n]"

definition mat_mul :: "nat \<Rightarrow> 'a list list \<Rightarrow> 'a list list \<Rightarrow> ('a::comm_semiring_0) list list" where
  "mat_mul p x y =
     map (\<lambda>xr. map (\<lambda>j. sum_list (map (\<lambda>t. xr ! t * y ! t ! j) [0..<length y])) [0..<p]) x"

definition dense_grad :: "nat \<Rightarrow> 'a list list \<Rightarrow> 'a list list \<Rightarrow> ('a::comm_semiring_0) list list" where
  "dense_grad n g b = mat_mul (length b) g (mat_transpose n b)"

text \<open>
  The row and the column of the stored entry with major index \<open>r\<close> and minor index
  \<open>c\<close>.
\<close>

definition row_of :: "fmt \<Rightarrow> nat \<Rightarrow> nat \<Rightarrow> nat" where
  "row_of f r c = (case f of CSR \<Rightarrow> r | CSC \<Rightarrow> c)"

definition col_of :: "fmt \<Rightarrow> nat \<Rightarrow> nat \<Rightarrow> nat" where
  "col_of f r c = (case f of CSR \<Rightarrow> c | CSC \<Rightarrow> r)"

text \<open>A compressed matrix whose pattern is valid for its own format and shape.\<close>

definition csmatrix_ok :: "'a csmatrix \<Rightarrow> bool" where
  "csmatrix_ok m \<longleftrightarrow>
     0 \<le> fst (shape m) \<and> 0 \<le> snd (shape m) \<and>
     int (length (indptr m)) - 1 = major_dim (format m) [fst (shape m), snd (shape m)] \<and>
     pattern_ok (indptr m) (indices m) (length (data m))
       (minor_dim (format m) [fst (shape m), snd (shape m)])"

text \<open>A dense matrix, as its list of rows, with \<open>r\<close> rows and \<open>n\<close> columns.\<close>

definition dense_ok :: "int \<Rightarrow> nat \<Rightarrow> 'a list list \<Rightarrow> bool" where
  "dense_ok r n m \<longleftrightarrow> int (length m) = r \<and> list_all (\<lambda>row. length row = n) m"

section \<open>Signatures of sparse constants\<close>

text \<open>
  A dtype is its name. The type of a graph variable is a sparse type
  \<^verbatim>\<open>SparseTensorType(format, dtype)\<close>, a dense type \<^verbatim>\<open>TensorType(dtype)\<close>, or the
  type of the disconnected sentinel. A matrix value of the sparse library carries the
  dtype of its data beside its compressed storage; its class (\<^verbatim>\<open>csr_matrix\<close> or
  \<^verbatim>\<open>csc_matrix\<close>) is its format.
\<close>

type_synonym dtype = string

datatype vtype = SparseTensorType fmt dtype | TensorType dtype | DisconnectedType

record spmatrix =
  dtype :: dtype
  matrix :: "real csmatrix"



text \<open>
  The library's \<^verbatim>\<open>abs(b - y).sum()\<close> for two matrices of one shape: the sum, over
  all positions of the shape, of the absolute difference of the two entries. The entry
  of a compressed matrix at a position is the sum of the values stored there.
\<close>

definition stored_entries :: "'a csmatrix \<Rightarrow> (nat \<times> int \<times> 'a) list" where
  "stored_entries m =
     concat (map (\<lambda>r. map (\<lambda>p. (r, indices m ! p, data m ! p))
                          [nat (indptr m ! r)..<nat (indptr m ! Suc r)])
                 [0..<length (indptr m) - 1])"

definition toarray_at :: "('a::comm_monoid_add) csmatrix \<Rightarrow> nat \<Rightarrow> nat \<Rightarrow> 'a" where
  "toarray_at m i j =
     sum_list (map (\<lambda>(r, c, v).
                 if (case format m of
                       CSR \<Rightarrow> r = i \<and> c = int j
                     | CSC \<Rightarrow> c = int i \<and> r = j)
                 then v else 0)
               (stored_entries m))"

definition abs_diff_sum :: "real csmatrix \<Rightarrow> real csmatrix \<Rightarrow> real" where
  "abs_diff_sum b y =
     sum_list (map (\<lambda>i. sum_list (map (\<lambda>j. \<bar>toarray_at b i j - toarray_at y i j\<bar>)
                                     [0..<nat (snd (shape b))]))
                   [0..<nat (fst (shape b))])"

text \<open>\<^verbatim>\<open>b.nnz\<close>: the number of stored entries (stored zeros count).\<close>

definition nnz :: "'a csmatrix \<Rightarrow> nat" where
  "nnz m = length (data m)"

text \<open>\<^verbatim>\<open>SparseConstantSignature.__eq__\<close> and \<^verbatim>\<open>__ne__\<close>.\<close>

definition SparseConstantSignature_eq :: "vtype \<times> spmatrix \<Rightarrow> vtype \<times> spmatrix \<Rightarrow> bool" where
  "SparseConstantSignature_eq self other =
     (case (self, other) of ((a, b), (x, y)) \<Rightarrow>
        a = x
        \<and> dtype b = dtype y
        \<and> format (matrix b) = format (matrix y)
        \<and> shape (matrix b) = shape (matrix y)
        \<and> abs_diff_sum (matrix b) (matrix y) < (1 / 1000000) * real (nnz (matrix b)))"

definition SparseConstantSignature_ne :: "vtype \<times> spmatrix \<Rightarrow> vtype \<times> spmatrix \<Rightarrow> bool" where
  "SparseConstantSignature_ne self other = (\<not> SparseConstantSignature_eq self other)"

section \<open>Graph variables and the gradient rules\<close>

text \<open>
  A gradient rule builds graph expressions. A graph variable is a leaf with a name and a
  type (an input or a constant), a Python integer passed where a variable is expected, or
  output number \<open>k\<close> of the node that applies an operator to a list of variables. The
  operators are those of the sparse module that the rules below apply, the product
  \<^verbatim>\<open>a * b\<close> of two variables, \<^verbatim>\<open>Split(n)\<close>, and the other operators of the dense
  tensor library, which are known by their names only.
\<close>

datatype op =
    CSM fmt
  | CSMProperties
  | CSMGrad
  | DenseFromSparse
  | SparseFromDense fmt
  | Transpose
  | ColScaleCSC
  | RowScaleCSC
  | SpSum "int option" bool
  | Mul
  | Split nat
  | TensorOp string

datatype variable =
    Variable string vtype
  | PyInt int
  | Output op "variable list" nat

fun type_dtype :: "vtype \<Rightarrow> dtype" where
  "type_dtype (SparseTensorType f d) = d"
| "type_dtype (TensorType d) = d"
| "type_dtype DisconnectedType = []"

fun is_sparse_type :: "vtype \<Rightarrow> bool" where
  "is_sparse_type (SparseTensorType f d) = True"
| "is_sparse_type (TensorType d) = False"
| "is_sparse_type DisconnectedType = False"

definition first_dtype :: "vtype list \<Rightarrow> dtype" where
  "first_dtype ts = (case ts of [] \<Rightarrow> [] | t # rest \<Rightarrow> type_dtype t)"

text \<open>
  The type of output \<open>k\<close> of a node, from the types of its inputs, as the
  \<^verbatim>\<open>make_node\<close> methods of the sparse module assign it. The dense tensor library is
  outside the sources: its operators return dense tensors, and the model gives them the
  dtype of their first input.
\<close>

definition out_type :: "op \<Rightarrow> vtype list \<Rightarrow> nat \<Rightarrow> vtype" where
  "out_type opr ts k =
     (case opr of
        CSM f \<Rightarrow> SparseTensorType f (first_dtype ts)
      | CSMProperties \<Rightarrow> (if k = 0 then TensorType (first_dtype ts) else TensorType ''int32'')
      | CSMGrad \<Rightarrow> TensorType (first_dtype (drop 4 ts))
      | DenseFromSparse \<Rightarrow> TensorType (first_dtype ts)
      | SparseFromDense f \<Rightarrow> SparseTensorType f (first_dtype ts)
      | Transpose \<Rightarrow>
          (case ts of
             SparseTensorType CSR d # rest \<Rightarrow> SparseTensorType CSC d
           | SparseTensorType CSC d # rest \<Rightarrow> SparseTensorType CSR d
           | _ \<Rightarrow> TensorType (first_dtype ts))
      | ColScaleCSC \<Rightarrow> (case ts of [] \<Rightarrow> TensorType [] | t # rest \<Rightarrow> t)
      | RowScaleCSC \<Rightarrow> (case ts of [] \<Rightarrow> TensorType [] | t # rest \<Rightarrow> t)
      | SpSum axis structured \<Rightarrow> TensorType (first_dtype ts)
      | Mul \<Rightarrow> (case filter is_sparse_type ts of
                  [] \<Rightarrow> TensorType (first_dtype ts)
                | t # rest \<Rightarrow> t)
      | Split n \<Rightarrow> TensorType (first_dtype ts)
      | TensorOp name \<Rightarrow> TensorType (first_dtype ts))"

fun vtype_of :: "variable \<Rightarrow> vtype" where
  "vtype_of (Variable name t) = t"
| "vtype_of (PyInt i) = TensorType ''int8''"
| "vtype_of (Output opr args k) = out_type opr (map vtype_of args) k"

text \<open>\<^verbatim>\<open>_is_sparse_variable\<close>, and the attributes \<^verbatim>\<open>x.format\<close> and \<^verbatim>\<open>x.dtype\<close>.\<close>

definition is_sparse_variable :: "variable \<Rightarrow> bool" where
  "is_sparse_variable x = is_sparse_type (vtype_of x)"

definition get_format :: "variable \<Rightarrow> error + fmt" where
  "get_format x = (case vtype_of x of SparseTensorType f d \<Rightarrow> Inr f | _ \<Rightarrow> Inl AttributeError)"

definition get_dtype :: "variable \<Rightarrow> error + dtype" where
  "get_dtype x =
     (case vtype_of x of
        SparseTensorType f d \<Rightarrow> Inr d
      | TensorType d \<Rightarrow> Inr d
      | DisconnectedType \<Rightarrow> Inl AttributeError)"

definition as_sparse_variable :: "variable \<Rightarrow> error + variable" where
  "as_sparse_variable x =
     (if is_sparse_variable x then Inr x
      else Inl (TypeError ''Variable type field must be a SparseTensorType.''))"

text \<open>
  Modelled from the spec: the closed set of dtypes (the table
  \<^verbatim>\<open>SparseTensorType.dtype_specs_map\<close> is not among the sources). The classes of
  dtypes are selected from it by the prefixes of the names, as the module does.
\<close>

definition all_dtypes :: "dtype list" where
  "all_dtypes =
     [''int8'', ''int16'', ''int32'', ''int64'', ''uint8'', ''uint16'', ''uint32'', ''uint64'',
      ''float16'', ''float32'', ''float64'', ''complex64'', ''complex128'']"

definition complex_dtypes :: "dtype list" where
  "complex_dtypes = filter (\<lambda>t. take 7 t = ''complex'') all_dtypes"

definition float_dtypes :: "dtype list" where
  "float_dtypes = filter (\<lambda>t. take 5 t = ''float'') all_dtypes"

definition int_dtypes :: "dtype list" where
  "int_dtypes = filter (\<lambda>t. take 3 t = ''int'') all_dtypes"

definition uint_dtypes :: "dtype list" where
  "uint_dtypes = filter (\<lambda>t. take 4 t = ''uint'') all_dtypes"


definition continuous_dtypes :: "dtype list" where
  "continuous_dtypes = complex_dtypes @ float_dtypes"

definition discrete_dtypes :: "dtype list" where
  "discrete_dtypes = int_dtypes @ uint_dtypes"


subsection \<open>Applying the operators\<close>

text \<open>
  \<^verbatim>\<open>csm_properties(csm)\<close>: the four outputs of the node. Ranks are not part of the
  types of the model, so the rank tests of the \<^verbatim>\<open>make_node\<close> methods are left out.
\<close>

definition csm_properties ::
  "variable \<Rightarrow> error + (variable \<times> variable \<times> variable \<times> variable)" where
  "csm_properties csm =
     bind_err (as_sparse_variable csm) (\<lambda>csm.
     Inr (Output CSMProperties [csm] 0, Output CSMProperties [csm] 1,
          Output CSMProperties [csm] 2, Output CSMProperties [csm] 3))"

definition CSM_call ::
  "fmt \<Rightarrow> variable \<Rightarrow> variable \<Rightarrow> variable \<Rightarrow> variable \<Rightarrow> error + variable" where
  "CSM_call f d ix ip sh =
     bind_err (get_dtype ix) (\<lambda>t_ix.
     if t_ix \<notin> set discrete_dtypes then Inl (TypeError ''indices must be vector of integers'')
     else
       bind_err (get_dtype ip) (\<lambda>t_ip.
       if t_ip \<notin> set discrete_dtypes then Inl (TypeError ''indices must be vector of integers'')
       else
         bind_err (get_dtype sh) (\<lambda>t_sh.
         if t_sh \<notin> set discrete_dtypes then Inl (TypeError ''n_rows must be integer type'')
         else Inr (Output (CSM f) [d, ix, ip, sh] 0))))"

text \<open>\<^verbatim>\<open>DenseFromSparse.__call__\<close> and \<^verbatim>\<open>SparseFromDense.__call__\<close>.\<close>

definition dense_from_sparse :: "variable \<Rightarrow> variable" where
  "dense_from_sparse x = (if \<not> is_sparse_variable x then x else Output DenseFromSparse [x] 0)"

definition SparseFromDense_call :: "fmt \<Rightarrow> variable \<Rightarrow> variable" where
  "SparseFromDense_call f x = (if is_sparse_variable x then x else Output (SparseFromDense f) [x] 0)"

definition sparse_transpose :: "variable \<Rightarrow> error + variable" where
  "sparse_transpose x = bind_err (as_sparse_variable x) (\<lambda>x. Inr (Output Transpose [x] 0))"

definition sp_ones_like :: "variable \<Rightarrow> error + variable" where
  "sp_ones_like x =
     bind_err (csm_properties x) (\<lambda>(d, ix, ip, sh).
     bind_err (get_format x) (\<lambda>f.
     CSM_call f (Output (TensorOp ''ones_like'') [d] 0) ix ip sh))"

definition sp_zeros_like :: "variable \<Rightarrow> error + variable" where
  "sp_zeros_like x =
     bind_err (csm_properties x) (\<lambda>(d, ix, ip, sh).
     bind_err (get_format x) (\<lambda>f.
     bind_err (get_dtype x) (\<lambda>t.
     CSM_call f (Variable ''np.array([])'' (TensorType t))
                (Variable ''np.array([])'' (TensorType ''int32''))
                (Output (TensorOp ''zeros_like'') [ip] 0) sh)))"

definition col_scale :: "variable \<Rightarrow> variable \<Rightarrow> error + variable" where
  "col_scale x s =
     bind_err (get_format x) (\<lambda>f.
     case f of
       CSC \<Rightarrow> Inr (Output ColScaleCSC [x, s] 0)
     | CSR \<Rightarrow>
         bind_err (sparse_transpose x) (\<lambda>xt.
         bind_err (as_sparse_variable xt) (\<lambda>xt.
         sparse_transpose (Output RowScaleCSC [xt, s] 0))))"

definition row_scale :: "variable \<Rightarrow> variable \<Rightarrow> error + variable" where
  "row_scale x s =
     bind_err (sparse_transpose x) (\<lambda>xt.
     bind_err (col_scale xt s) sparse_transpose)"

subsection \<open>Gradient rules of extraction and construction\<close>

text \<open>\<^verbatim>\<open>CSMProperties.grad\<close>, for the input \<open>csm\<close> and the list \<open>g\<close> of output gradients.\<close>

definition CSMProperties_grad :: "variable \<Rightarrow> variable list \<Rightarrow> error + variable list" where
  "CSMProperties_grad csm g =
     (case g of
        [] \<Rightarrow> Inl IndexError
      | g0 # rest \<Rightarrow>
          if vtype_of g0 = DisconnectedType then
            bind_err (sp_zeros_like csm) (\<lambda>z. Inr [z])
          else
            bind_err (csm_properties csm) (\<lambda>(d, ix, ip, sh).
            bind_err (get_format csm) (\<lambda>f.
            bind_err (CSM_call f g0 ix ip sh) (\<lambda>r. Inr [r]))))"

text \<open>\<^verbatim>\<open>CSM.connection_pattern\<close> and \<^verbatim>\<open>CSM.grad\<close>.\<close>

definition CSM_connection_pattern :: "bool list list" where
  "CSM_connection_pattern = [[True], [False], [False], [False]]"

definition disconnected :: variable where
  "disconnected = Variable [] DisconnectedType"

definition CSM_grad ::
  "variable \<Rightarrow> variable \<Rightarrow> variable \<Rightarrow> variable \<Rightarrow> variable \<Rightarrow> error + variable list" where
  "CSM_grad x_data x_indices x_indptr x_shape g_out =
     bind_err (csm_properties g_out) (\<lambda>(g_data, g_indices, g_indptr, g_shape).
     Inr [Output CSMGrad
            [x_data, x_indices, x_indptr, x_shape, g_data, g_indices, g_indptr, g_shape] 0,
          disconnected, disconnected, disconnected])"

subsection \<open>Sum of a sparse matrix\<close>

text \<open>
  \<^verbatim>\<open>SpSum.__init__(axis=None, sparse_grad=True)\<close> and
  \<^verbatim>\<open>sp_sum(x, axis=None, sparse_grad=False)\<close>. An argument that the caller leaves out
  is \<open>None\<close> in the model and takes the default of the signature; for \<open>axis\<close> the
  default is itself \<^verbatim>\<open>None\<close>. The operator stores the flag as \<^verbatim>\<open>self.structured\<close>.
\<close>

definition SpSum_init :: "int option \<Rightarrow> bool option \<Rightarrow> error + op" where
  "SpSum_init axis sparse_grad =
     (let structured = (case sparse_grad of None \<Rightarrow> True | Some b \<Rightarrow> b) in
      if axis \<noteq> None \<and> axis \<noteq> Some 0 \<and> axis \<noteq> Some 1 then
        Inl (ValueError ''Illegal value for self.axis.'' [])
      else Inr (SpSum axis structured))"

definition SpSum_make_node :: "op \<Rightarrow> variable \<Rightarrow> error + variable" where
  "SpSum_make_node opr x = bind_err (as_sparse_variable x) (\<lambda>x. Inr (Output opr [x] 0))"

definition sp_sum :: "variable \<Rightarrow> int option \<Rightarrow> bool option \<Rightarrow> error + variable" where
  "sp_sum x axis sparse_grad =
     (let sparse_grad = (case sparse_grad of None \<Rightarrow> False | Some b \<Rightarrow> b) in
      bind_err (SpSum_init axis (Some sparse_grad)) (\<lambda>opr. SpSum_make_node opr x))"

text \<open>
  The two branches of \<^verbatim>\<open>SpSum.grad\<close>: the structured gradient, with the sparsity
  pattern of the operand, and the regular gradient, computed densely and converted back
  to the format of the operand.
\<close>

definition SpSum_structured_grad :: "int option \<Rightarrow> variable \<Rightarrow> variable \<Rightarrow> error + variable" where
  "SpSum_structured_grad axis x gz =
     (if axis = None then
        bind_err (sp_ones_like x) (\<lambda>ones. Inr (Output Mul [gz, ones] 0))
      else if axis = Some 0 then
        bind_err (sp_ones_like x) (\<lambda>ones. col_scale ones gz)
      else if axis = Some 1 then
        bind_err (sp_ones_like x) (\<lambda>ones. row_scale ones gz)
      else Inl (ValueError ''Illegal value for self.axis.'' []))"

definition SpSum_regular_grad :: "int option \<Rightarrow> variable \<Rightarrow> variable \<Rightarrow> error + variable" where
  "SpSum_regular_grad axis x gz =
     bind_err (get_format x) (\<lambda>o_format.
     let x = dense_from_sparse x;
         gz = (if is_sparse_variable gz then dense_from_sparse gz else gz)
     in bind_err
          (if axis = None then Inr (Output (TensorOp ''second'') [x, gz] 0)
           else
             let ones = Output (TensorOp ''ones_like'') [x] 0 in
             if axis = Some 0 then
               Inr (Output Mul
                      [Output (TensorOp ''specify_broadcastable(0)'')
                         [Output (TensorOp ''dimshuffle(x, 0)'') [gz] 0] 0, ones] 0)
             else if axis = Some 1 then
               Inr (Output Mul
                      [Output (TensorOp ''specify_broadcastable(1)'')
                         [Output (TensorOp ''dimshuffle(0, x)'') [gz] 0] 0, ones] 0)
             else Inl (ValueError ''Illegal value for self.axis.'' []))
          (\<lambda>r. Inr (SparseFromDense_call o_format r)))"

text \<open>
  \<^verbatim>\<open>SpSum.grad\<close> of the operator with the fields \<open>axis\<close> and \<open>structured\<close>. For an
  operand whose dtype is not continuous the rule calls \<^verbatim>\<open>x.zeros_like(dtype=...)\<close>; the
  method \<^verbatim>\<open>zeros_like\<close> of sparse variables takes no such argument.
\<close>

definition SpSum_grad :: "int option \<Rightarrow> bool \<Rightarrow> variable \<Rightarrow> variable \<Rightarrow> error + variable list" where
  "SpSum_grad axis structured x gz =
     bind_err (get_dtype x) (\<lambda>t.
     if t \<notin> set continuous_dtypes then
       Inl (TypeError ''zeros_like() got an unexpected keyword argument dtype'')
     else if structured then
       bind_err (SpSum_structured_grad axis x gz) (\<lambda>r. Inr [r])
     else
       bind_err (SpSum_regular_grad axis x gz) (\<lambda>r. Inr [r]))"

subsection \<open>Gradient rules of stacking\<close>







section \<open>Construction from parts on arbitrary inputs\<close>

text \<open>
  \<^verbatim>\<open>x[:n]\<close> for a vector \<open>x\<close>: the first \<open>n\<close> entries, and for a negative \<open>n\<close> all
  but the last \<open>-n\<close>.
\<close>

definition py_prefix :: "int \<Rightarrow> 'b list \<Rightarrow> 'b list" where
  "py_prefix n xs = take (nat (if n < 0 then int (length xs) + n else n)) xs"

text \<open>
  The constructor of the sparse library, called with the three vectors and a shape of two
  entries. It refuses a negative shape entry, then checks the format without the full
  check: the pointer has one entry more than the major dimension, it starts with 0, the
  index and data vectors have the same size, and the last pointer entry does not exceed
  that size. Each failure is a \<^verbatim>\<open>ValueError\<close>. It then prunes the index and data
  vectors to the last pointer entry and stores the parts.
\<close>

definition scipy_cs_matrix_init ::
  "fmt \<Rightarrow> 'a list \<Rightarrow> int list \<Rightarrow> int list \<Rightarrow> int list \<Rightarrow> error + 'a csmatrix" where
  "scipy_cs_matrix_init f d ix ip sh =
     (if sh ! 0 < 0 \<or> sh ! 1 < 0 then
        Inl (ValueError ''shape elements cannot be negative'' [])
      else if int (length ip) \<noteq> major_dim f sh + 1 then
        Inl (ValueError ''index pointer size should be the major dimension plus 1'' [])
      else if ip ! 0 \<noteq> 0 then
        Inl (ValueError ''index pointer should start with 0'' [])
      else if length ix \<noteq> length d then
        Inl (ValueError ''indices and data should have the same size'' [])
      else if int (length ix) < last ip then
        Inl (ValueError
               ''Last value of index pointer should be less than the size of index and data arrays''
               [])
      else Inr (scipy_cs_matrix f (py_prefix (last ip) d) (py_prefix (last ip) ix) ip sh))"

text \<open>
  \<^verbatim>\<open>CSM.perform\<close> on arbitrary parts: its own two tests, then the call of the
  constructor of the operator's format, whose error ends the evaluation.
\<close>

definition CSM_perform_checked ::
  "fmt \<Rightarrow> 'a list \<Rightarrow> int list \<Rightarrow> int list \<Rightarrow> int list \<Rightarrow> error + 'a csmatrix" where
  "CSM_perform_checked f d ix ip sh =
     (if length sh \<noteq> 2 then
        Inl (ValueError ''Shape should be an array of length 2'' [])
      else if length d \<noteq> length ix then
        Inl (ValueError ''Data must have the same number of elements as indices''
               [[int (length d)], [int (length ix)]])
      else (case f of
              CSC \<Rightarrow> scipy_cs_matrix_init CSC d ix ip sh
            | CSR \<Rightarrow> scipy_cs_matrix_init CSR d ix ip sh))"

text \<open>
  The parts that the constructor accepts, for a shape of two entries and data and index
  vectors of one length.
\<close>

definition scipy_accepts :: "fmt \<Rightarrow> int list \<Rightarrow> int list \<Rightarrow> int list \<Rightarrow> bool" where
  "scipy_accepts f ix ip sh \<longleftrightarrow>
     0 \<le> sh ! 0 \<and> 0 \<le> sh ! 1 \<and> int (length ip) = major_dim f sh + 1 \<and>
     ip ! 0 = 0 \<and> last ip \<le> int (length ix)"

section \<open>Facts about the numeric layer\<close>

lemma int32_id: "in_int32 x \<Longrightarrow> int32 x = x"
  by (simp add: int32_def in_int32_def)

lemma asarray_int32_id: "list_all in_int32 xs \<Longrightarrow> asarray_int32 xs = xs"
  by (induction xs) (simp_all add: asarray_int32_def int32_id)

lemma CSMProperties_perform_id:
  "fits_int32 m \<Longrightarrow>
   CSMProperties_perform m = (data m, indices m, indptr m, [fst (shape m), snd (shape m)])"
  by (simp add: CSMProperties_perform_def fits_int32_def asarray_int32_id)

lemma bind_err_simps [simp]:
  "bind_err (Inr v) f = f v" "bind_err (Inl e) f = Inl e"
  by (simp_all add: bind_err_def)

lemma getitem_ok: "0 \<le> i \<Longrightarrow> i < int (length xs) \<Longrightarrow> getitem xs i = Inr (xs ! nat i)"
  by (simp add: getitem_def np_index_def)

lemma setitem_ok: "0 \<le> i \<Longrightarrow> i < int (length xs) \<Longrightarrow> setitem xs i v = Inr (xs[nat i := v])"
  by (simp add: setitem_def np_index_def)

lemma upto_as_upt: "[int a..int b - 1] = map int [a..<b]"
proof (induction b)
  case 0
  then show ?case by simp
next
  case (Suc b)
  show ?case
  proof (cases "a \<le> b")
    case True
    then have "[int a..int (Suc b) - 1] = [int a..int b - 1] @ [int b]"
      using upto_rec2 [of "int a" "int b"] by simp
    with Suc True show ?thesis by simp
  next
    case False
    then show ?thesis by simp
  qed
qed

lemma py_range_nonneg: "0 \<le> a \<Longrightarrow> py_range a b = map int [nat a..<nat b]"
proof (cases "0 \<le> b")
  case True
  assume "0 \<le> a"
  with True show ?thesis
    using upto_as_upt [of "nat a" "nat b"] by (simp add: py_range_def)
next
  case False
  assume "0 \<le> a"
  with False show ?thesis by (simp add: py_range_def)
qed

lemma for_loop_append:
  "for_loop (xs @ ys) body s = bind_err (for_loop xs body s) (for_loop ys body)"
proof (induction xs arbitrary: s)
  case Nil
  then show ?case by simp
next
  case (Cons x xs)
  then show ?case by (cases "body x s") simp_all
qed

lemma scatter_loop:
  fixes row :: "('a::comm_monoid_add) list"
  assumes "\<forall>q\<in>set qs. q < length gi \<and> q < length gd \<and> 0 \<le> gi ! q \<and> gi ! q < int (length row)"
  shows "\<exists>row'. for_loop (map int qs)
            (\<lambda>j_ptr g_row.
               bind_err (getitem gi j_ptr) (\<lambda>c.
               bind_err (getitem g_row c) (\<lambda>old.
               bind_err (getitem gd j_ptr) (\<lambda>v.
               setitem g_row c (old + v))))) row = Inr row'
          \<and> length row' = length row
          \<and> (\<forall>c<length row. row' ! c =
                row ! c + sum_list (map (\<lambda>q. if gi ! q = int c then gd ! q else 0) qs))"
  using assms
proof (induction qs arbitrary: row)
  case Nil
  then show ?case by simp
next
  case (Cons q qs)
  let ?k = "nat (gi ! q)"
  let ?row1 = "row[?k := row ! ?k + gd ! q]"
  from Cons.prems have q: "q < length gi" "q < length gd" "0 \<le> gi ! q" "gi ! q < int (length row)"
    by simp_all
  from Cons.prems have rest:
    "\<forall>q\<in>set qs. q < length gi \<and> q < length gd \<and> 0 \<le> gi ! q \<and> gi ! q < int (length ?row1)"
    by simp
  from Cons.IH [OF rest] obtain row' where
    r: "for_loop (map int qs)
            (\<lambda>j_ptr g_row.
               bind_err (getitem gi j_ptr) (\<lambda>c.
               bind_err (getitem g_row c) (\<lambda>old.
               bind_err (getitem gd j_ptr) (\<lambda>v.
               setitem g_row c (old + v))))) ?row1 = Inr row'"
    and l: "length row' = length ?row1"
    and v: "\<forall>c<length ?row1. row' ! c =
                ?row1 ! c + sum_list (map (\<lambda>q. if gi ! q = int c then gd ! q else 0) qs)"
    by blast
  have k: "?k < length row" using q by simp
  have "\<forall>c<length row. row' ! c =
          row ! c + sum_list (map (\<lambda>q. if gi ! q = int c then gd ! q else 0) (q # qs))"
  proof (intro allI impI)
    fix c assume c: "c < length row"
    show "row' ! c = row ! c + sum_list (map (\<lambda>q. if gi ! q = int c then gd ! q else 0) (q # qs))"
    proof (cases "c = ?k")
      case True
      then have e: "gi ! q = int c" using q by simp
      have "?row1 ! c = row ! c + gd ! q" using True k by simp
      moreover have "row' ! c = ?row1 ! c + sum_list (map (\<lambda>q. if gi ! q = int c then gd ! q else 0) qs)"
        using v c by simp
      ultimately have "row' ! c = (row ! c + gd ! q) + sum_list (map (\<lambda>q. if gi ! q = int c then gd ! q else 0) qs)"
        by (simp only:)
      then show ?thesis using e by (simp add: add.assoc)
    next
      case False
      then have e: "gi ! q \<noteq> int c" by auto
      have "?row1 ! c = row ! c" using False by simp
      moreover have "row' ! c = ?row1 ! c + sum_list (map (\<lambda>q. if gi ! q = int c then gd ! q else 0) qs)"
        using v c by simp
      ultimately have "row' ! c = row ! c + sum_list (map (\<lambda>q. if gi ! q = int c then gd ! q else 0) qs)"
        by (simp only:)
      then show ?thesis using e by simp
    qed
  qed
  with r l q show ?case by (simp add: getitem_ok setitem_ok)
qed

lemma gather_loop:
  assumes "\<forall>p\<in>set ps. p < length gout \<and> p < length xi \<and> 0 \<le> xi ! p \<and> xi ! p < int (length row)"
  shows "\<exists>gout'. for_loop (map int ps)
            (\<lambda>j_ptr gout_data.
               bind_err (getitem xi j_ptr) (\<lambda>c.
               bind_err (getitem row c) (\<lambda>v.
               setitem gout_data j_ptr v))) gout = Inr gout'
          \<and> length gout' = length gout
          \<and> (\<forall>p<length gout. gout' ! p = (if p \<in> set ps then row ! nat (xi ! p) else gout ! p))"
  using assms
proof (induction ps arbitrary: gout)
  case Nil
  then show ?case by simp
next
  case (Cons p ps)
  let ?g1 = "gout[p := row ! nat (xi ! p)]"
  from Cons.prems have p: "p < length gout" "p < length xi" "0 \<le> xi ! p" "xi ! p < int (length row)"
    by simp_all
  from Cons.prems have rest:
    "\<forall>p\<in>set ps. p < length ?g1 \<and> p < length xi \<and> 0 \<le> xi ! p \<and> xi ! p < int (length row)"
    by simp
  from Cons.IH [OF rest] obtain gout' where
    r: "for_loop (map int ps)
            (\<lambda>j_ptr gout_data.
               bind_err (getitem xi j_ptr) (\<lambda>c.
               bind_err (getitem row c) (\<lambda>v.
               setitem gout_data j_ptr v))) ?g1 = Inr gout'"
    and l: "length gout' = length ?g1"
    and v: "\<forall>p'<length ?g1. gout' ! p' = (if p' \<in> set ps then row ! nat (xi ! p') else ?g1 ! p')"
    by blast
  have "\<forall>p'<length gout. gout' ! p' = (if p' \<in> set (p # ps) then row ! nat (xi ! p') else gout ! p')"
  proof (intro allI impI)
    fix p' assume b: "p' < length gout"
    then have "gout' ! p' = (if p' \<in> set ps then row ! nat (xi ! p') else ?g1 ! p')"
      using v by simp
    then show "gout' ! p' = (if p' \<in> set (p # ps) then row ! nat (xi ! p') else gout ! p')"
      using b by (cases "p' = p") auto
  qed
  with r l p show ?case by (simp add: getitem_ok setitem_ok)
qed

lemma clear_loop:
  fixes row :: "('a::zero) list"
  assumes "\<forall>q\<in>set qs. q < length gi \<and> 0 \<le> gi ! q \<and> gi ! q < int (length row)"
  shows "\<exists>row'. for_loop (map int qs)
            (\<lambda>j_ptr g_row.
               bind_err (getitem gi j_ptr) (\<lambda>c. setitem g_row c 0)) row = Inr row'
          \<and> length row' = length row
          \<and> (\<forall>c<length row. row' ! c = (if \<exists>q\<in>set qs. gi ! q = int c then 0 else row ! c))"
  using assms
proof (induction qs arbitrary: row)
  case Nil
  then show ?case by simp
next
  case (Cons q qs)
  let ?k = "nat (gi ! q)"
  let ?row1 = "row[?k := 0]"
  from Cons.prems have q: "q < length gi" "0 \<le> gi ! q" "gi ! q < int (length row)"
    by simp_all
  from Cons.prems have rest:
    "\<forall>q\<in>set qs. q < length gi \<and> 0 \<le> gi ! q \<and> gi ! q < int (length ?row1)"
    by simp
  from Cons.IH [OF rest] obtain row' where
    r: "for_loop (map int qs)
            (\<lambda>j_ptr g_row.
               bind_err (getitem gi j_ptr) (\<lambda>c. setitem g_row c 0)) ?row1 = Inr row'"
    and l: "length row' = length ?row1"
    and v: "\<forall>c<length ?row1. row' ! c = (if \<exists>q\<in>set qs. gi ! q = int c then 0 else ?row1 ! c)"
    by blast
  have "\<forall>c<length row. row' ! c = (if \<exists>q'\<in>set (q # qs). gi ! q' = int c then 0 else row ! c)"
  proof (intro allI impI)
    fix c assume c: "c < length row"
    then have a: "row' ! c = (if \<exists>q\<in>set qs. gi ! q = int c then 0 else ?row1 ! c)"
      using v by simp
    show "row' ! c = (if \<exists>q'\<in>set (q # qs). gi ! q' = int c then 0 else row ! c)"
    proof (cases "gi ! q = int c")
      case True
      then have "?row1 ! c = 0" using c by simp
      with a True show ?thesis by simp
    next
      case False
      then have "?k \<noteq> c" using q by auto
      then have "?row1 ! c = row ! c" by simp
      with a False show ?thesis by simp
    qed
  qed
  with r l q show ?case by (simp add: getitem_ok setitem_ok)
qed

lemma sum_list_zero_if_none:
  fixes f :: "nat \<Rightarrow> 'a::comm_monoid_add"
  assumes "\<forall>q\<in>set qs. \<not> P q"
  shows "sum_list (map (\<lambda>q. if P q then f q else 0) qs) = 0"
  using assms by (induction qs) simp_all

lemma pattern_ok_ptr:
  assumes "pattern_ok ip ix n minor" and "Suc i < length ip"
  shows "0 \<le> ip ! i" and "ip ! i \<le> ip ! Suc i" and "ip ! Suc i \<le> int n"
proof -
  from assms(1) have s: "sorted ip" and h: "0 \<le> hd ip" and l: "last ip \<le> int n" and ne: "ip \<noteq> []"
    by (simp_all add: pattern_ok_def)
  have "ip ! 0 \<le> ip ! i" using s assms(2) by (simp add: sorted_nth_mono)
  moreover have "hd ip = ip ! 0" using ne by (simp add: hd_conv_nth)
  ultimately show "0 \<le> ip ! i" using h by simp
  show "ip ! i \<le> ip ! Suc i" using s assms(2) by (simp add: sorted_nth_mono)
  have "ip ! Suc i \<le> ip ! (length ip - 1)" using s assms(2) by (simp add: sorted_nth_mono)
  moreover have "last ip = ip ! (length ip - 1)" using ne by (simp add: last_conv_nth)
  ultimately show "ip ! Suc i \<le> int n" using l by simp
qed

lemma pattern_ok_idx:
  assumes "pattern_ok ip ix n minor" and "q < n"
  shows "q < length ix" and "0 \<le> ix ! q" and "ix ! q < minor"
  using assms by (simp_all add: pattern_ok_def list_all_length)

lemma csm_grad_major_ok:
  fixes gd :: "('a::comm_monoid_add) list"
  assumes x: "pattern_ok xp xi (length gout) m"
    and g: "pattern_ok gp gi (length gd) m"
    and ix: "Suc i < length xp" and ig: "Suc i < length gp"
    and m: "0 \<le> m"
  shows "\<exists>gout'. csm_grad_major xi xp gd gi gp (int i) (replicate (nat m) 0, gout)
                    = Inr (replicate (nat m) 0, gout')
          \<and> length gout' = length gout
          \<and> (\<forall>p<length gout. gout' ! p =
                (if nat (xp ! i) \<le> p \<and> p < nat (xp ! Suc i)
                 then stored_sum gd gi (nat (gp ! i)) (nat (gp ! Suc i)) (xi ! p)
                 else gout ! p))"
proof -
  let ?z = "replicate (nat m) (0::'a)"
  let ?g0 = "gp ! i" and ?g1 = "gp ! Suc i" and ?x0 = "xp ! i" and ?x1 = "xp ! Suc i"
  let ?qs = "[nat ?g0..<nat ?g1]" and ?ps = "[nat ?x0..<nat ?x1]"
  note gptr = pattern_ok_ptr [OF g ig] and xptr = pattern_ok_ptr [OF x ix]
  have lgi: "length gi = length gd" using g by (simp add: pattern_ok_def)
  have qs: "\<forall>q\<in>set ?qs. q < length gi \<and> q < length gd \<and> 0 \<le> gi ! q \<and> gi ! q < int (length ?z)"
  proof
    fix q assume "q \<in> set ?qs"
    then have "q < length gd" using gptr(3) by auto
    with pattern_ok_idx [OF g this] m show
      "q < length gi \<and> q < length gd \<and> 0 \<le> gi ! q \<and> gi ! q < int (length ?z)" by simp
  qed
  from scatter_loop [OF qs] obtain row1 where
    s1: "scatter_row gd gi ?g0 ?g1 ?z = Inr row1"
    and l1: "length row1 = nat m"
    and v1: "\<forall>c<nat m. row1 ! c = stored_sum gd gi (nat ?g0) (nat ?g1) (int c)"
    unfolding scatter_row_def stored_sum_def using gptr(1) by (auto simp: py_range_nonneg)
  have ps: "\<forall>p\<in>set ?ps. p < length gout \<and> p < length xi \<and> 0 \<le> xi ! p \<and> xi ! p < int (length row1)"
  proof
    fix p assume "p \<in> set ?ps"
    then have "p < length gout" using xptr(3) by auto
    with pattern_ok_idx [OF x this] m l1 show
      "p < length gout \<and> p < length xi \<and> 0 \<le> xi ! p \<and> xi ! p < int (length row1)" by simp
  qed
  from gather_loop [OF ps] obtain gout' where
    s2: "gather_row xi row1 ?x0 ?x1 gout = Inr gout'"
    and l2: "length gout' = length gout"
    and v2: "\<forall>p<length gout. gout' ! p = (if p \<in> set ?ps then row1 ! nat (xi ! p) else gout ! p)"
    unfolding gather_row_def using xptr(1) by (auto simp: py_range_nonneg)
  have qs': "\<forall>q\<in>set ?qs. q < length gi \<and> 0 \<le> gi ! q \<and> gi ! q < int (length row1)"
    using qs l1 by simp
  from clear_loop [OF qs'] obtain row2 where
    s3: "clear_row gi ?g0 ?g1 row1 = Inr row2"
    and l3: "length row2 = nat m"
    and v3: "\<forall>c<nat m. row2 ! c = (if \<exists>q\<in>set ?qs. gi ! q = int c then 0 else row1 ! c)"
    unfolding clear_row_def using gptr(1) l1 by (auto simp: py_range_nonneg)
  have z: "row2 = ?z"
  proof (rule nth_equalityI)
    show "length row2 = length ?z" using l3 by simp
  next
    fix c assume "c < length row2"
    then have c: "c < nat m" using l3 by simp
    show "row2 ! c = ?z ! c"
    proof (cases "\<exists>q\<in>set ?qs. gi ! q = int c")
      case True
      with v3 c show ?thesis by simp
    next
      case False
      then have "stored_sum gd gi (nat ?g0) (nat ?g1) (int c) = 0"
        unfolding stored_sum_def by (intro sum_list_zero_if_none) simp
      with v1 v3 c False show ?thesis by simp
    qed
  qed
  have v: "\<forall>p<length gout. gout' ! p =
                (if nat ?x0 \<le> p \<and> p < nat ?x1
                 then stored_sum gd gi (nat ?g0) (nat ?g1) (xi ! p)
                 else gout ! p)"
  proof (intro allI impI)
    fix p assume p: "p < length gout"
    show "gout' ! p =
                (if nat ?x0 \<le> p \<and> p < nat ?x1
                 then stored_sum gd gi (nat ?g0) (nat ?g1) (xi ! p)
                 else gout ! p)"
    proof (cases "nat ?x0 \<le> p \<and> p < nat ?x1")
      case True
      from pattern_ok_idx [OF x p] have b: "0 \<le> xi ! p" "nat (xi ! p) < nat m" using m by simp_all
      have "gout' ! p = row1 ! nat (xi ! p)" using v2 p True by simp
      also have "\<dots> = stored_sum gd gi (nat ?g0) (nat ?g1) (int (nat (xi ! p)))" using v1 b by simp
      finally show ?thesis using True b by simp
    next
      case False
      then show ?thesis using v2 p by auto
    qed
  qed
  have "csm_grad_major xi xp gd gi gp (int i) (?z, gout) = Inr (?z, gout')"
    using ix ig s1 s2 s3 z
    by (simp add: csm_grad_major_def getitem_ok nat_add_distrib)
  with l2 v show ?thesis by blast
qed

lemma csm_grad_loop:
  fixes gd :: "('a::comm_monoid_add) list"
  assumes x: "pattern_ok xp xi n m"
    and g: "pattern_ok gp gi (length gd) m"
    and lg: "length gp = length xp"
    and m: "0 \<le> m"
    and k: "k < length xp"
    and l0: "length gout0 = n"
  shows "\<exists>gout. for_loop (map int [0..<k]) (csm_grad_major xi xp gd gi gp)
                    (replicate (nat m) 0, gout0) = Inr (replicate (nat m) 0, gout)
          \<and> length gout = n
          \<and> (\<forall>i<k. \<forall>p. nat (xp ! i) \<le> p \<and> p < nat (xp ! Suc i) \<longrightarrow>
                gout ! p = stored_sum gd gi (nat (gp ! i)) (nat (gp ! Suc i)) (xi ! p))"
  using k
proof (induction k)
  case 0
  then show ?case using l0 by simp
next
  case (Suc k)
  then have "k < length xp" by simp
  from Suc.IH [OF this] obtain gk where
    r: "for_loop (map int [0..<k]) (csm_grad_major xi xp gd gi gp)
                    (replicate (nat m) 0, gout0) = Inr (replicate (nat m) 0, gk)"
    and l: "length gk = n"
    and v: "\<forall>i<k. \<forall>p. nat (xp ! i) \<le> p \<and> p < nat (xp ! Suc i) \<longrightarrow>
                gk ! p = stored_sum gd gi (nat (gp ! i)) (nat (gp ! Suc i)) (xi ! p)"
    by blast
  have x': "pattern_ok xp xi (length gk) m" using x l by simp
  have ix: "Suc k < length xp" using Suc.prems .
  have ig: "Suc k < length gp" using Suc.prems lg by simp
  from csm_grad_major_ok [OF x' g ix ig m] obtain gout where
    r': "csm_grad_major xi xp gd gi gp (int k) (replicate (nat m) 0, gk)
                    = Inr (replicate (nat m) 0, gout)"
    and l': "length gout = length gk"
    and v': "\<forall>p<length gk. gout ! p =
                (if nat (xp ! k) \<le> p \<and> p < nat (xp ! Suc k)
                 then stored_sum gd gi (nat (gp ! k)) (nat (gp ! Suc k)) (xi ! p)
                 else gk ! p)"
    by blast
  have "\<forall>i<Suc k. \<forall>p. nat (xp ! i) \<le> p \<and> p < nat (xp ! Suc i) \<longrightarrow>
                gout ! p = stored_sum gd gi (nat (gp ! i)) (nat (gp ! Suc i)) (xi ! p)"
  proof (intro allI impI)
    fix i p assume i: "i < Suc k" and p: "nat (xp ! i) \<le> p \<and> p < nat (xp ! Suc i)"
    have si: "Suc i < length xp" using i ix by simp
    have "xp ! Suc i \<le> int n" using pattern_ok_ptr(3) [OF x si] .
    then have pn: "p < length gk" using p l by linarith
    show "gout ! p = stored_sum gd gi (nat (gp ! i)) (nat (gp ! Suc i)) (xi ! p)"
    proof (cases "i = k")
      case True
      with v' pn p show ?thesis by simp
    next
      case False
      then have ik: "i < k" using i by simp
      have "sorted xp" using x by (simp add: pattern_ok_def)
      then have "xp ! Suc i \<le> xp ! k" using ik \<open>k < length xp\<close> by (simp add: sorted_nth_mono)
      then have "\<not> nat (xp ! k) \<le> p" using p by linarith
      then have "gout ! p = gk ! p" using v' pn by simp
      with v ik p show ?thesis by simp
    qed
  qed
  moreover have "for_loop (map int [0..<Suc k]) (csm_grad_major xi xp gd gi gp)
                    (replicate (nat m) 0, gout0) = Inr (replicate (nat m) 0, gout)"
    using r r' by (simp add: for_loop_append)
  ultimately show ?case using l l' by auto
qed

section \<open>Construction from parts\<close>

lemma scipy_cs_matrix_init_accepts:
  assumes "length d = length ix" and "scipy_accepts f ix ip sh"
  shows "scipy_cs_matrix_init f d ix ip sh =
           Inr (scipy_cs_matrix f (py_prefix (last ip) d) (py_prefix (last ip) ix) ip sh)"
  using assms by (auto simp: scipy_cs_matrix_init_def scipy_accepts_def)

lemma scipy_cs_matrix_init_refuses:
  assumes "length d = length ix" and "\<not> scipy_accepts f ix ip sh"
  shows "\<exists>msg args. scipy_cs_matrix_init f d ix ip sh = Inl (ValueError msg args)"
  using assms by (auto simp: scipy_cs_matrix_init_def scipy_accepts_def)

text \<open>
  On the parts of a matrix that the constructor accepts and that fill the pointer exactly,
  the evaluation with the validation is the evaluation without it.
\<close>

lemma CSM_perform_checked_exact:
  assumes "length sh = 2" and "length d = length ix" and "scipy_accepts f ix ip sh"
    and "last ip = int (length ix)"
  shows "CSM_perform_checked f d ix ip sh = CSM_perform f d ix ip sh"
  using assms
  by (cases f)
     (simp_all add: CSM_perform_checked_def CSM_perform_def scipy_cs_matrix_init_accepts
        py_prefix_def)

text \<open>
  Claim C7, as amended. \<^verbatim>\<open>CSM.perform\<close> ends with a \<^verbatim>\<open>ValueError\<close>, and so
  without an output, whenever the shape vector does not have exactly two entries or the
  data vector and the index vector differ in length. On every other input it calls the
  library's constructor of the operator's format. When the constructor accepts the parts
  (no negative shape entry, a pointer with one entry more than the major dimension that
  starts with 0 and ends within the data), the result is the matrix of the operator's
  format with the given pointer and shape and with the data and the indices cut to the
  last pointer entry, so the data and indices themselves when the pointer ends at their
  length. When the constructor refuses the parts, the evaluation ends with its
  \<^verbatim>\<open>ValueError\<close> and without an output.
\<close>

theorem CSM_perform_checked_validates:
  "(length sh \<noteq> 2 \<or> length d \<noteq> length ix \<longrightarrow>
      (\<exists>msg args. CSM_perform_checked f d ix ip sh = Inl (ValueError msg args)))
   \<and> (length sh = 2 \<and> length d = length ix \<and> scipy_accepts f ix ip sh \<longrightarrow>
      (\<exists>m. CSM_perform_checked f d ix ip sh = Inr m \<and> format m = f \<and>
           data m = py_prefix (last ip) d \<and> indices m = py_prefix (last ip) ix \<and>
           indptr m = ip \<and> shape m = (sh ! 0, sh ! 1) \<and>
           (last ip = int (length ix) \<longrightarrow> data m = d \<and> indices m = ix)))
   \<and> (length sh = 2 \<and> length d = length ix \<and> \<not> scipy_accepts f ix ip sh \<longrightarrow>
      (\<exists>msg args. CSM_perform_checked f d ix ip sh = Inl (ValueError msg args)))"
proof -
  have a: "length sh \<noteq> 2 \<or> length d \<noteq> length ix \<longrightarrow>
      (\<exists>msg args. CSM_perform_checked f d ix ip sh = Inl (ValueError msg args))"
    by (auto simp: CSM_perform_checked_def)
  have e: "CSM_perform_checked f d ix ip sh = scipy_cs_matrix_init f d ix ip sh"
    if "length sh = 2" and "length d = length ix"
    using that by (cases f) (simp_all add: CSM_perform_checked_def)
  have b: "length sh = 2 \<and> length d = length ix \<and> scipy_accepts f ix ip sh \<longrightarrow>
      (\<exists>m. CSM_perform_checked f d ix ip sh = Inr m \<and> format m = f \<and>
           data m = py_prefix (last ip) d \<and> indices m = py_prefix (last ip) ix \<and>
           indptr m = ip \<and> shape m = (sh ! 0, sh ! 1) \<and>
           (last ip = int (length ix) \<longrightarrow> data m = d \<and> indices m = ix))"
    by (simp add: e scipy_cs_matrix_init_accepts scipy_cs_matrix_def py_prefix_def)
  have c: "length sh = 2 \<and> length d = length ix \<and> \<not> scipy_accepts f ix ip sh \<longrightarrow>
      (\<exists>msg args. CSM_perform_checked f d ix ip sh = Inl (ValueError msg args))"
    using scipy_cs_matrix_init_refuses [of d ix f ip sh] by (simp add: e)
  show ?thesis using a b c by blast
qed

theorem CSM_perform_checked_validates_witness:
  "(\<exists>msg args. CSM_perform_checked CSR [5::int] [0] [0, 1] [1, 1, 1] = Inl (ValueError msg args))
   \<and> (\<exists>msg args. CSM_perform_checked CSC [5::int, 6] [0] [0, 1] [1, 1] = Inl (ValueError msg args))
   \<and> (\<exists>m. CSM_perform_checked CSC [5::int] [0] [0, 1] [1, 1] = Inr m \<and> format m = CSC \<and>
           data m = [5] \<and> indices m = [0] \<and> indptr m = [0, 1] \<and> shape m = (1, 1))
   \<and> (\<exists>msg args. CSM_perform_checked CSC [5::int] [0] [1, 1] [1, 1] = Inl (ValueError msg args))"
proof -
  have "scipy_accepts CSC [0] [0, 1] [1, 1]" and "\<not> scipy_accepts CSC [0] [1, 1] [1, 1]"
    by (simp_all add: scipy_accepts_def major_dim_def)
  then show ?thesis
    using CSM_perform_checked_validates [where sh = "[1, 1, 1]" and d = "[5::int]" and ix = "[0]"
            and f = CSR and ip = "[0, 1]"]
          CSM_perform_checked_validates [where sh = "[1, 1]" and d = "[5::int, 6]" and ix = "[0]"
            and f = CSC and ip = "[0, 1]"]
          CSM_perform_checked_validates [where sh = "[1, 1]" and d = "[5::int]" and ix = "[0]"
            and f = CSC and ip = "[0, 1]"]
          CSM_perform_checked_validates [where sh = "[1, 1]" and d = "[5::int]" and ix = "[0]"
            and f = CSC and ip = "[1, 1]"]
    by (auto simp: py_prefix_def)
qed

text \<open>
  Claim C7 as stated fails on parts that pass the two tests of \<^verbatim>\<open>CSM.perform\<close> and
  that the constructor refuses: a shape of two entries, one data entry and one index,
  with an empty pointer or with a negative shape entry. No matrix is returned.
\<close>

theorem CSM_perform_checked_counterexample:
  "length [1::int, 1] = 2 \<and> length [5::int] = length [0::int]
   \<and> CSM_perform_checked CSR [5::int] [0] [] [1, 1]
       = Inl (ValueError ''index pointer size should be the major dimension plus 1'' [])
   \<and> CSM_perform_checked CSC [5::int] [0] [0, 1] [- 4, 1]
       = Inl (ValueError ''shape elements cannot be negative'' [])"
  by (simp add: CSM_perform_checked_def scipy_cs_matrix_init_def major_dim_def)

section \<open>Round trip\<close>

text \<open>
  Claim C1, as amended. For a compressed matrix whose data and index vectors have the
  same length and whose indices, pointers and shape entries are representable as signed
  32-bit integers, constructing a matrix of the same format from the four extracted
  parts gives the matrix back: same format, data, indices, pointer and shape.
\<close>

theorem csm_roundtrip_identity:
  "same_length m \<Longrightarrow> fits_int32 m \<Longrightarrow> csm_roundtrip m = Inr m"
  by (cases "format m")
     (simp_all add: csm_roundtrip_def CSMProperties_perform_id CSM_perform_def same_length_def
        scipy_cs_matrix_def)

theorem csm_roundtrip_identity_witness:
  "same_length \<lparr>format = CSC, data = [3::int, 4], indices = [1, 0], indptr = [0, 1, 2], shape = (2, 2)\<rparr>
   \<and> fits_int32 \<lparr>format = CSC, data = [3::int, 4], indices = [1, 0], indptr = [0, 1, 2], shape = (2, 2)\<rparr>
   \<and> csm_roundtrip \<lparr>format = CSC, data = [3::int, 4], indices = [1, 0], indptr = [0, 1, 2], shape = (2, 2)\<rparr>
       = Inr \<lparr>format = CSC, data = [3, 4], indices = [1, 0], indptr = [0, 1, 2], shape = (2, 2)\<rparr>"
  using csm_roundtrip_identity
          [of "\<lparr>format = CSC, data = [3::int, 4], indices = [1, 0], indptr = [0, 1, 2], shape = (2, 2)\<rparr>"]
  by (simp add: same_length_def fits_int32_def in_int32_def)

text \<open>
  Claim C1 as stated fails on a matrix with more than \<open>2\<^sup>3\<^sup>1\<close> columns, which the
  library stores with 64-bit indices: the one-row matrix with a single entry in column
  \<open>2\<^sup>3\<^sup>1\<close> is valid, and the conversion of its index vector to 32 bits yields the
  index \<open>-2\<^sup>3\<^sup>1\<close>.
\<close>

theorem csm_roundtrip_counterexample:
  "csmatrix_ok \<lparr>format = CSR, data = [1::int], indices = [2147483648], indptr = [0, 1],
                 shape = (1, 2147483649)\<rparr>
   \<and> fst (snd (CSMProperties_perform
        \<lparr>format = CSR, data = [1::int], indices = [2147483648], indptr = [0, 1],
          shape = (1, 2147483649)\<rparr>)) = [- 2147483648]
   \<and> csm_roundtrip \<lparr>format = CSR, data = [1::int], indices = [2147483648], indptr = [0, 1],
                      shape = (1, 2147483649)\<rparr>
       \<noteq> Inr \<lparr>format = CSR, data = [1::int], indices = [2147483648], indptr = [0, 1],
                shape = (1, 2147483649)\<rparr>"
  by (simp add: csmatrix_ok_def pattern_ok_def major_dim_def minor_dim_def
        csm_roundtrip_def CSMProperties_perform_def asarray_int32_def int32_def
        CSM_perform_def scipy_cs_matrix_def)

section \<open>Shape check of the structured dot product\<close>

text \<open>
  Claim C8. Let \<open>b0\<close> be the row count of the right operand. When the column count of
  the left operand differs from \<open>b0\<close>, \<^verbatim>\<open>StructuredDot.perform\<close> ends with the
  \<^verbatim>\<open>ValueError\<close> that carries both operand shapes, and there is no output. When
  the two agree, the evaluation does not end with a \<^verbatim>\<open>ValueError\<close>, whatever the
  library's product returns.
\<close>

theorem StructuredDot_perform_shape_check:
  "shape_at (array_shape b) 0 = Inr b0 \<Longrightarrow>
   (snd (shape a) \<noteq> b0 \<longrightarrow>
      StructuredDot_perform mul out_sparse a b =
        Inl (ValueError ''shape mismatch in StructuredDot.perform''
               [[fst (shape a), snd (shape a)], array_shape b]))
   \<and> (snd (shape a) = b0 \<longrightarrow>
      (\<forall>msg args. StructuredDot_perform mul out_sparse a b \<noteq> Inl (ValueError msg args)))"
  by (auto simp: StructuredDot_perform_def Let_def bind_err_def shape_at_def
        split: sum.splits if_splits)

theorem StructuredDot_perform_shape_check_witness:
  "shape_at (array_shape (Dense [3, 1] [1::int, 2, 3])) 0 = Inr 3
   \<and> StructuredDot_perform (\<lambda>a b. Dense [1, 1] [14]) False
        \<lparr>format = CSR, data = [7::int], indices = [1], indptr = [0, 1], shape = (1, 2)\<rparr>
        (Dense [3, 1] [1, 2, 3])
      = Inl (ValueError ''shape mismatch in StructuredDot.perform'' [[1, 2], [3, 1]])
   \<and> (\<forall>msg args. StructuredDot_perform (\<lambda>a b. Dense [1, 1] [14]) False
        \<lparr>format = CSR, data = [7::int], indices = [1], indptr = [0, 1], shape = (1, 3)\<rparr>
        (Dense [3, 1] [1, 2, 3])
      \<noteq> Inl (ValueError msg args))"
  using StructuredDot_perform_shape_check
          [of "Dense [3, 1] [1::int, 2, 3]" 3
              "\<lparr>format = CSR, data = [7::int], indices = [1], indptr = [0, 1], shape = (1, 2)\<rparr>"
              "\<lambda>a b. Dense [1, 1] [14]" False]
        StructuredDot_perform_shape_check
          [of "Dense [3, 1] [1::int, 2, 3]" 3
              "\<lparr>format = CSR, data = [7::int], indices = [1], indptr = [0, 1], shape = (1, 3)\<rparr>"
              "\<lambda>a b. Dense [1, 1] [14]" False]
  by (simp add: shape_at_def)

section \<open>The structured gradient of the structured dot product\<close>

lemma inner_fill_loop:
  assumes "\<forall>p\<in>set ps. p < length out"
    and "\<And>p o'. p \<in> set ps \<Longrightarrow> length o' = length out \<Longrightarrow> step (int p) o' = Inr (o'[p := val p])"
  shows "\<exists>out'. for_loop (map int ps) step out = Inr out'
          \<and> length out' = length out
          \<and> (\<forall>p<length out. out' ! p = (if p \<in> set ps then val p else out ! p))"
  using assms
proof (induction ps arbitrary: out)
  case Nil
  then show ?case by simp
next
  case (Cons p ps)
  let ?o1 = "out[p := val p]"
  have p: "p < length out" using Cons.prems(1) by simp
  have st: "step (int p) out = Inr ?o1" using Cons.prems(2) [of p out] by simp
  have a: "\<forall>p\<in>set ps. p < length ?o1" using Cons.prems(1) by simp
  have b: "\<And>p' o'. p' \<in> set ps \<Longrightarrow> length o' = length ?o1 \<Longrightarrow> step (int p') o' = Inr (o'[p' := val p'])"
    using Cons.prems(2) by simp
  from Cons.IH [OF a b] obtain out' where
    r: "for_loop (map int ps) step ?o1 = Inr out'"
    and l: "length out' = length ?o1"
    and v: "\<forall>p'<length ?o1. out' ! p' = (if p' \<in> set ps then val p' else ?o1 ! p')"
    by blast
  have "\<forall>p'<length out. out' ! p' = (if p' \<in> set (p # ps) then val p' else out ! p')"
  proof (intro allI impI)
    fix p' assume b: "p' < length out"
    then have "out' ! p' = (if p' \<in> set ps then val p' else ?o1 ! p')" using v by simp
    then show "out' ! p' = (if p' \<in> set (p # ps) then val p' else out ! p')"
      using b by (cases "p' = p") auto
  qed
  with r l st show ?case by simp
qed

lemma major_fill_loop:
  assumes x: "pattern_ok ip ix n minor"
    and k: "k < length ip"
    and l0: "length out0 = n"
    and st: "\<And>r p o'. Suc r < length ip \<Longrightarrow> nat (ip ! r) \<le> p \<Longrightarrow> p < nat (ip ! Suc r) \<Longrightarrow>
                length o' = n \<Longrightarrow> step (int r) (int p) o' = Inr (o'[p := val r p])"
  shows "\<exists>out. for_loop (map int [0..<k])
                  (\<lambda>r o'. bind_err (getitem ip r) (\<lambda>ind0.
                           bind_err (getitem ip (r + 1)) (\<lambda>ind1.
                           for_loop (py_range ind0 ind1) (step r) o'))) out0 = Inr out
          \<and> length out = n
          \<and> (\<forall>r<k. \<forall>p. nat (ip ! r) \<le> p \<and> p < nat (ip ! Suc r) \<longrightarrow> out ! p = val r p)"
  using k
proof (induction k)
  case 0
  then show ?case using l0 by simp
next
  case (Suc k)
  let ?body = "\<lambda>r o'. bind_err (getitem ip r) (\<lambda>ind0.
                           bind_err (getitem ip (r + 1)) (\<lambda>ind1.
                           for_loop (py_range ind0 ind1) (step r) o'))"
  have kl: "k < length ip" and sk: "Suc k < length ip" using Suc.prems by simp_all
  from Suc.IH [OF kl] obtain ok where
    r: "for_loop (map int [0..<k]) ?body out0 = Inr ok"
    and l: "length ok = n"
    and v: "\<forall>r<k. \<forall>p. nat (ip ! r) \<le> p \<and> p < nat (ip ! Suc r) \<longrightarrow> ok ! p = val r p"
    by blast
  note ptr = pattern_ok_ptr [OF x sk]
  let ?ps = "[nat (ip ! k)..<nat (ip ! Suc k)]"
  have a: "\<forall>p\<in>set ?ps. p < length ok" using ptr(3) l by auto
  have b: "\<And>p o'. p \<in> set ?ps \<Longrightarrow> length o' = length ok \<Longrightarrow>
              step (int k) (int p) o' = Inr (o'[p := val k p])"
    using st [OF sk] l by simp
  from inner_fill_loop [OF a b] obtain out where
    r': "for_loop (map int ?ps) (step (int k)) ok = Inr out"
    and l': "length out = length ok"
    and v': "\<forall>p<length ok. out ! p = (if p \<in> set ?ps then val k p else ok ! p)"
    by blast
  have bk: "?body (int k) ok = Inr out"
    using sk ptr(1) r' by (simp add: getitem_ok nat_add_distrib py_range_nonneg)
  have "\<forall>r<Suc k. \<forall>p. nat (ip ! r) \<le> p \<and> p < nat (ip ! Suc r) \<longrightarrow> out ! p = val r p"
  proof (intro allI impI)
    fix r p assume i: "r < Suc k" and p: "nat (ip ! r) \<le> p \<and> p < nat (ip ! Suc r)"
    have si: "Suc r < length ip" using i sk by simp
    have "ip ! Suc r \<le> int n" using pattern_ok_ptr(3) [OF x si] .
    then have pn: "p < length ok" using p l by linarith
    show "out ! p = val r p"
    proof (cases "r = k")
      case True
      with v' pn p show ?thesis by simp
    next
      case False
      then have ik: "r < k" using i by simp
      have "sorted ip" using x by (simp add: pattern_ok_def)
      then have "ip ! Suc r \<le> ip ! k" using ik kl by (simp add: sorted_nth_mono)
      then have "\<not> nat (ip ! k) \<le> p" using p by linarith
      then have "out ! p = ok ! p" using v' pn by simp
      with v ik p show ?thesis by simp
    qed
  qed
  moreover have "for_loop (map int [0..<Suc k]) ?body out0 = Inr out"
    using r bk by (simp add: for_loop_append)
  ultimately show ?case using l l' by auto
qed

lemma dense_ok_row:
  assumes "dense_ok r n m" and "0 \<le> i" and "i < r"
  shows "getitem m i = Inr (m ! nat i)" and "length (m ! nat i) = n"
proof -
  from assms have i: "nat i < length m" by (auto simp: dense_ok_def)
  then show "getitem m i = Inr (m ! nat i)" using assms(2) by (simp add: getitem_ok)
  show "length (m ! nat i) = n" using assms(1) i by (simp add: dense_ok_def list_all_length)
qed

lemma sum_list_map2_nth:
  fixes u :: "('a::comm_semiring_0) list"
  shows "length u = length v \<Longrightarrow>
    sum_list (map2 (*) u v) = sum_list (map (\<lambda>t. u ! t * v ! t) [0..<length u])"
proof (induction u v rule: list_induct2)
  case Nil
  then show ?case by simp
next
  case (Cons x xs y ys)
  have "[0..<Suc (length xs)] = 0 # [Suc 0..<Suc (length xs)]"
    by (rule upt_conv_Cons) simp
  then have "[0..<Suc (length xs)] = 0 # map Suc [0..<length xs]"
    by (simp only: map_Suc_upt)
  then have "sum_list (map (\<lambda>t. (x # xs) ! t * (y # ys) ! t) [0..<length (x # xs)])
             = x * y + sum_list (map (\<lambda>t. xs ! t * ys ! t) [0..<length xs])"
    by (simp add: comp_def del: upt_Suc)
  then show ?case using Cons by simp
qed

lemma dense_grad_nth:
  fixes g :: "('a::comm_semiring_0) list list"
  assumes "i < length g" and "j < length b" and "length (g ! i) = n" and "length (b ! j) = n"
  shows "dense_grad n g b ! i ! j = sum_list (map2 (*) (g ! i) (b ! j))"
proof -
  have "dense_grad n g b ! i ! j
        = sum_list (map (\<lambda>t. g ! i ! t * mat_transpose n b ! t ! j) [0..<n])"
    using assms(1,2) by (simp add: dense_grad_def mat_mul_def mat_transpose_def)
  also have "\<dots> = sum_list (map (\<lambda>t. g ! i ! t * b ! j ! t) [0..<n])"
    using assms(2) by (intro arg_cong [where f = sum_list] map_cong) (simp_all add: mat_transpose_def)
  also have "\<dots> = sum_list (map2 (*) (g ! i) (b ! j))"
    using sum_list_map2_nth [of "g ! i" "b ! j"] assms(3,4) by simp
  finally show ?thesis .
qed

lemma StructuredDotGradCSR_perform_ok:
  fixes b :: "('a::comm_semiring_0) list list"
  assumes x: "pattern_ok ip ix (length ix) k"
    and b: "dense_ok k n b"
    and g: "dense_ok (int (length ip) - 1) n g"
  shows "\<exists>out. StructuredDotGradCSR_perform ix ip b g = Inr out
          \<and> length out = length ix
          \<and> (\<forall>r p. Suc r < length ip \<and> ip ! r \<le> int p \<and> int p < ip ! Suc r \<longrightarrow>
                out ! p = sum_list (map2 (*) (g ! r) (b ! nat (ix ! p))))"
proof -
  let ?step = "\<lambda>i j_idx g_a_data.
               bind_err (getitem ix j_idx) (\<lambda>j.
               bind_err (getitem g i) (\<lambda>g_row.
               bind_err (getitem b j) (\<lambda>b_row.
               bind_err (np_dot g_row b_row) (\<lambda>dot_val.
               setitem g_a_data j_idx dot_val))))"
  let ?val = "\<lambda>r p. sum_list (map2 (*) (g ! r) (b ! nat (ix ! p)))"
  have ne: "ip \<noteq> []" using x by (simp add: pattern_ok_def)
  then have k: "length ip - 1 < length ip" by (cases ip) simp_all
  have st: "?step (int r) (int p) o' = Inr (o'[p := ?val r p])"
    if r: "Suc r < length ip" and lo: "nat (ip ! r) \<le> p" and hi: "p < nat (ip ! Suc r)"
      and l: "length o' = length ix" for r p o'
  proof -
    have pn: "p < length ix" using pattern_ok_ptr(3) [OF x r] hi by linarith
    note idx = pattern_ok_idx [OF x pn]
    have gr: "getitem g (int r) = Inr (g ! r)" "length (g ! r) = n"
      using dense_ok_row [OF g, of "int r"] r by simp_all
    have br: "getitem b (ix ! p) = Inr (b ! nat (ix ! p))" "length (b ! nat (ix ! p)) = n"
      using dense_ok_row [OF b idx(2) idx(3)] by simp_all
    have "getitem ix (int p) = Inr (ix ! p)" using pn by (simp add: getitem_ok)
    moreover have "np_dot (g ! r) (b ! nat (ix ! p)) = Inr (?val r p)"
      using gr(2) br(2) by (simp add: np_dot_def)
    moreover have "setitem o' (int p) v = Inr (o'[p := v])" for v
      using pn l by (simp add: setitem_ok)
    ultimately show ?thesis using gr(1) br(1) by simp
  qed
  from major_fill_loop [where step = ?step and val = ?val and ?out0.0 = "replicate (length ix) 0",
         OF x k _ st] obtain out where
    r: "for_loop (map int [0..<length ip - 1])
          (\<lambda>r o'. bind_err (getitem ip r) (\<lambda>ind0.
                   bind_err (getitem ip (r + 1)) (\<lambda>ind1.
                   for_loop (py_range ind0 ind1) (?step r) o'))) (replicate (length ix) 0) = Inr out"
    and l: "length out = length ix"
    and v: "\<forall>r<length ip - 1. \<forall>p. nat (ip ! r) \<le> p \<and> p < nat (ip ! Suc r) \<longrightarrow> out ! p = ?val r p"
    by (simp only: length_replicate) blast
  have rg: "py_range 0 (int (length ip) - 1) = map int [0..<length ip - 1]"
    using ne py_range_nonneg [of 0 "int (length ip) - 1"]
    by (cases ip) (simp_all add: nat_diff_distrib)
  have "StructuredDotGradCSR_perform ix ip b g = Inr out"
    unfolding StructuredDotGradCSR_perform_def rg using r by simp
  moreover have "\<forall>r p. Suc r < length ip \<and> ip ! r \<le> int p \<and> int p < ip ! Suc r \<longrightarrow>
                out ! p = ?val r p"
  proof (intro allI impI)
    fix r p
    assume a: "Suc r < length ip \<and> ip ! r \<le> int p \<and> int p < ip ! Suc r"
    then have "r < length ip - 1" and "nat (ip ! r) \<le> p \<and> p < nat (ip ! Suc r)" by auto
    with v show "out ! p = ?val r p" by blast
  qed
  ultimately show ?thesis using l by blast
qed

lemma StructuredDotGradCSC_perform_ok:
  fixes b :: "('a::comm_semiring_0) list list"
  assumes x: "pattern_ok ip ix (length ix) k"
    and b: "dense_ok (int (length ip) - 1) n b"
    and g: "dense_ok k n g"
  shows "\<exists>out. StructuredDotGradCSC_perform ix ip b g = Inr out
          \<and> length out = length ix
          \<and> (\<forall>r p. Suc r < length ip \<and> ip ! r \<le> int p \<and> int p < ip ! Suc r \<longrightarrow>
                out ! p = sum_list (map2 (*) (g ! nat (ix ! p)) (b ! r)))"
proof -
  let ?step = "\<lambda>j i_idx g_a_data.
               bind_err (getitem ix i_idx) (\<lambda>i.
               bind_err (getitem g i) (\<lambda>g_row.
               bind_err (getitem b j) (\<lambda>b_row.
               bind_err (np_dot g_row b_row) (\<lambda>dot_val.
               setitem g_a_data i_idx dot_val))))"
  let ?val = "\<lambda>r p. sum_list (map2 (*) (g ! nat (ix ! p)) (b ! r))"
  have ne: "ip \<noteq> []" using x by (simp add: pattern_ok_def)
  then have k: "length ip - 1 < length ip" by (cases ip) simp_all
  have st: "?step (int r) (int p) o' = Inr (o'[p := ?val r p])"
    if r: "Suc r < length ip" and lo: "nat (ip ! r) \<le> p" and hi: "p < nat (ip ! Suc r)"
      and l: "length o' = length ix" for r p o'
  proof -
    have pn: "p < length ix" using pattern_ok_ptr(3) [OF x r] hi by linarith
    note idx = pattern_ok_idx [OF x pn]
    have br: "getitem b (int r) = Inr (b ! r)" "length (b ! r) = n"
      using dense_ok_row [OF b, of "int r"] r by simp_all
    have gr: "getitem g (ix ! p) = Inr (g ! nat (ix ! p))" "length (g ! nat (ix ! p)) = n"
      using dense_ok_row [OF g idx(2) idx(3)] by simp_all
    have "getitem ix (int p) = Inr (ix ! p)" using pn by (simp add: getitem_ok)
    moreover have "np_dot (g ! nat (ix ! p)) (b ! r) = Inr (?val r p)"
      using gr(2) br(2) by (simp add: np_dot_def)
    moreover have "setitem o' (int p) v = Inr (o'[p := v])" for v
      using pn l by (simp add: setitem_ok)
    ultimately show ?thesis using gr(1) br(1) by simp
  qed
  from major_fill_loop [where step = ?step and val = ?val and ?out0.0 = "replicate (length ix) 0",
         OF x k _ st] obtain out where
    r: "for_loop (map int [0..<length ip - 1])
          (\<lambda>r o'. bind_err (getitem ip r) (\<lambda>ind0.
                   bind_err (getitem ip (r + 1)) (\<lambda>ind1.
                   for_loop (py_range ind0 ind1) (?step r) o'))) (replicate (length ix) 0) = Inr out"
    and l: "length out = length ix"
    and v: "\<forall>r<length ip - 1. \<forall>p. nat (ip ! r) \<le> p \<and> p < nat (ip ! Suc r) \<longrightarrow> out ! p = ?val r p"
    by (simp only: length_replicate) blast
  have rg: "py_range 0 (int (length ip) - 1) = map int [0..<length ip - 1]"
    using ne py_range_nonneg [of 0 "int (length ip) - 1"]
    by (cases ip) (simp_all add: nat_diff_distrib)
  have "StructuredDotGradCSC_perform ix ip b g = Inr out"
    unfolding StructuredDotGradCSC_perform_def rg using r by simp
  moreover have "\<forall>r p. Suc r < length ip \<and> ip ! r \<le> int p \<and> int p < ip ! Suc r \<longrightarrow>
                out ! p = ?val r p"
  proof (intro allI impI)
    fix r p
    assume a: "Suc r < length ip \<and> ip ! r \<le> int p \<and> int p < ip ! Suc r"
    then have "r < length ip - 1" and "nat (ip ! r) \<le> p \<and> p < nat (ip ! Suc r)" by auto
    with v show "out ! p = ?val r p" by blast
  qed
  ultimately show ?thesis using l by blast
qed


text \<open>
  Claim C2, as amended. Let \<open>A\<close> be a valid csr or csc matrix whose indices, pointers
  and shape entries are representable as signed 32-bit integers, \<open>B\<close> a dense matrix
  with as many rows as \<open>A\<close> has columns, and \<open>G\<close> an output gradient with as many rows
  as \<open>A\<close> and as many columns as \<open>B\<close>. Then \<^verbatim>\<open>structured_dot_grad\<close> evaluates to a
  matrix with the format, indices, pointer and shape of \<open>A\<close>, whose data entry at every
  stored position (row \<open>i\<close>, column \<open>j\<close>) of \<open>A\<close> is the inner product of row \<open>i\<close>
  of \<open>G\<close> with row \<open>j\<close> of \<open>B\<close>, which is the entry \<open>(i, j)\<close> of the dense
  gradient \<^verbatim>\<open>G @ B.T\<close>.
\<close>

theorem structured_dot_grad_structured:
  fixes A :: "('a::comm_semiring_0) csmatrix"
  assumes ok: "csmatrix_ok A" and f32: "fits_int32 A"
    and B: "dense_ok (snd (shape A)) n B" and G: "dense_ok (fst (shape A)) n G"
  shows "\<exists>M. structured_dot_grad A B G = Inr M
          \<and> format M = format A \<and> indices M = indices A \<and> indptr M = indptr A
          \<and> shape M = shape A \<and> length (data M) = length (data A)
          \<and> (\<forall>r p. Suc r < length (indptr A) \<and> indptr A ! r \<le> int p \<and> int p < indptr A ! Suc r \<longrightarrow>
                data M ! p =
                  sum_list (map2 (*) (G ! row_of (format A) r (nat (indices A ! p)))
                                     (B ! col_of (format A) r (nat (indices A ! p))))
                \<and> data M ! p =
                  dense_grad n G B ! row_of (format A) r (nat (indices A ! p))
                                   ! col_of (format A) r (nat (indices A ! p)))"
proof -
  let ?ip = "indptr A" and ?ix = "indices A"
  let ?sh = "[fst (shape A), snd (shape A)]"
  have props: "CSMProperties_perform A = (data A, ?ix, ?ip, ?sh)"
    using f32 by (rule CSMProperties_perform_id)
  have pat: "pattern_ok ?ip ?ix (length (data A)) (minor_dim (format A) ?sh)"
    and maj: "int (length ?ip) - 1 = major_dim (format A) ?sh"
    using ok by (simp_all add: csmatrix_ok_def)
  have lix: "length ?ix = length (data A)" using pat by (simp add: pattern_ok_def)
  have inrange: "p < length ?ix \<and> 0 \<le> ?ix ! p \<and> ?ix ! p < minor_dim (format A) ?sh"
    if "Suc r < length ?ip" and "int p < ?ip ! Suc r" for r p
  proof -
    have "p < length (data A)" using pattern_ok_ptr(3) [OF pat that(1)] that(2) by linarith
    from pattern_ok_idx [OF pat this] show ?thesis by simp
  qed
  show ?thesis
  proof (cases "format A")
    case CSR
    have x: "pattern_ok ?ip ?ix (length ?ix) (snd (shape A))"
      using pat lix CSR by (simp add: minor_dim_def)
    have g: "dense_ok (int (length ?ip) - 1) n G" using G maj CSR by (simp add: major_dim_def)
    from StructuredDotGradCSR_perform_ok [OF x B g] obtain out where
      r: "StructuredDotGradCSR_perform ?ix ?ip B G = Inr out"
      and l: "length out = length ?ix"
      and v: "\<forall>r p. Suc r < length ?ip \<and> ?ip ! r \<le> int p \<and> int p < ?ip ! Suc r \<longrightarrow>
                out ! p = sum_list (map2 (*) (G ! r) (B ! nat (?ix ! p)))"
      by blast
    let ?M = "scipy_cs_matrix CSR out ?ix ?ip ?sh"
    have e: "structured_dot_grad A B G = Inr ?M"
      using props CSR r l by (simp add: structured_dot_grad_def CSM_perform_def)
    have ro: "row_of (format A) r c = r" "col_of (format A) r c = c" for r c
      using CSR by (simp_all add: row_of_def col_of_def)
    have ent: "\<forall>r p. Suc r < length ?ip \<and> ?ip ! r \<le> int p \<and> int p < ?ip ! Suc r \<longrightarrow>
                data ?M ! p =
                  sum_list (map2 (*) (G ! row_of (format A) r (nat (?ix ! p)))
                                     (B ! col_of (format A) r (nat (?ix ! p))))
                \<and> data ?M ! p =
                  dense_grad n G B ! row_of (format A) r (nat (?ix ! p))
                                   ! col_of (format A) r (nat (?ix ! p))"
    proof (intro allI impI)
      fix r p
      assume a: "Suc r < length ?ip \<and> ?ip ! r \<le> int p \<and> int p < ?ip ! Suc r"
      from a inrange [of r p] CSR have b: "0 \<le> ?ix ! p" "?ix ! p < snd (shape A)"
        by (simp_all add: minor_dim_def)
      have rl: "r < length G" using a g by (auto simp: dense_ok_def)
      have jl: "nat (?ix ! p) < length B" using b B by (auto simp: dense_ok_def)
      have "length (G ! r) = n" using G rl by (simp add: dense_ok_def list_all_length)
      moreover have "length (B ! nat (?ix ! p)) = n"
        using B jl by (simp add: dense_ok_def list_all_length)
      ultimately have "dense_grad n G B ! r ! nat (?ix ! p)
                       = sum_list (map2 (*) (G ! r) (B ! nat (?ix ! p)))"
        using rl jl by (simp add: dense_grad_nth)
      moreover have "data ?M ! p = sum_list (map2 (*) (G ! r) (B ! nat (?ix ! p)))"
        using v a by (simp add: scipy_cs_matrix_def)
      ultimately show "data ?M ! p =
                  sum_list (map2 (*) (G ! row_of (format A) r (nat (?ix ! p)))
                                     (B ! col_of (format A) r (nat (?ix ! p))))
                \<and> data ?M ! p =
                  dense_grad n G B ! row_of (format A) r (nat (?ix ! p))
                                   ! col_of (format A) r (nat (?ix ! p))"
        unfolding ro by simp
    qed
    have "format ?M = format A" "indices ?M = ?ix" "indptr ?M = ?ip"
      "shape ?M = shape A" "length (data ?M) = length (data A)"
      using CSR l lix by (simp_all add: scipy_cs_matrix_def)
    then show ?thesis using e ent by blast
  next
    case CSC
    have x: "pattern_ok ?ip ?ix (length ?ix) (fst (shape A))"
      using pat lix CSC by (simp add: minor_dim_def)
    have b: "dense_ok (int (length ?ip) - 1) n B" using B maj CSC by (simp add: major_dim_def)
    from StructuredDotGradCSC_perform_ok [OF x b G] obtain out where
      r: "StructuredDotGradCSC_perform ?ix ?ip B G = Inr out"
      and l: "length out = length ?ix"
      and v: "\<forall>r p. Suc r < length ?ip \<and> ?ip ! r \<le> int p \<and> int p < ?ip ! Suc r \<longrightarrow>
                out ! p = sum_list (map2 (*) (G ! nat (?ix ! p)) (B ! r))"
      by blast
    let ?M = "scipy_cs_matrix CSC out ?ix ?ip ?sh"
    have e: "structured_dot_grad A B G = Inr ?M"
      using props CSC r l by (simp add: structured_dot_grad_def CSM_perform_def)
    have ro: "row_of (format A) r c = c" "col_of (format A) r c = r" for r c
      using CSC by (simp_all add: row_of_def col_of_def)
    have ent: "\<forall>r p. Suc r < length ?ip \<and> ?ip ! r \<le> int p \<and> int p < ?ip ! Suc r \<longrightarrow>
                data ?M ! p =
                  sum_list (map2 (*) (G ! row_of (format A) r (nat (?ix ! p)))
                                     (B ! col_of (format A) r (nat (?ix ! p))))
                \<and> data ?M ! p =
                  dense_grad n G B ! row_of (format A) r (nat (?ix ! p))
                                   ! col_of (format A) r (nat (?ix ! p))"
    proof (intro allI impI)
      fix r p
      assume a: "Suc r < length ?ip \<and> ?ip ! r \<le> int p \<and> int p < ?ip ! Suc r"
      from a inrange [of r p] CSC have c: "0 \<le> ?ix ! p" "?ix ! p < fst (shape A)"
        by (simp_all add: minor_dim_def)
      have rl: "r < length B" using a b by (auto simp: dense_ok_def)
      have il: "nat (?ix ! p) < length G" using c G by (auto simp: dense_ok_def)
      have "length (B ! r) = n" using B rl by (simp add: dense_ok_def list_all_length)
      moreover have "length (G ! nat (?ix ! p)) = n"
        using G il by (simp add: dense_ok_def list_all_length)
      ultimately have "dense_grad n G B ! nat (?ix ! p) ! r
                       = sum_list (map2 (*) (G ! nat (?ix ! p)) (B ! r))"
        using rl il by (simp add: dense_grad_nth)
      moreover have "data ?M ! p = sum_list (map2 (*) (G ! nat (?ix ! p)) (B ! r))"
        using v a by (simp add: scipy_cs_matrix_def)
      ultimately show "data ?M ! p =
                  sum_list (map2 (*) (G ! row_of (format A) r (nat (?ix ! p)))
                                     (B ! col_of (format A) r (nat (?ix ! p))))
                \<and> data ?M ! p =
                  dense_grad n G B ! row_of (format A) r (nat (?ix ! p))
                                   ! col_of (format A) r (nat (?ix ! p))"
        unfolding ro by simp
    qed
    have "format ?M = format A" "indices ?M = ?ix" "indptr ?M = ?ip"
      "shape ?M = shape A" "length (data ?M) = length (data A)"
      using CSC l lix by (simp_all add: scipy_cs_matrix_def)
    then show ?thesis using e ent by blast
  qed
qed

theorem structured_dot_grad_structured_witness:
  "csmatrix_ok
      \<lparr>format = CSR, data = [1::int, 1, 1], indices = [0, 1, 2],
            indptr = [0, 1, 2, 3], shape = (3, 3)\<rparr>
   \<and> fits_int32
      \<lparr>format = CSR, data = [1::int, 1, 1], indices = [0, 1, 2],
            indptr = [0, 1, 2, 3], shape = (3, 3)\<rparr>
   \<and> dense_ok 3 2 [[1::int, 2], [3, 4], [5, 6]]
   \<and> dense_ok 3 2 [[1::int, 0], [0, 1], [1, 1]]
   \<and> (\<exists>M. structured_dot_grad
            \<lparr>format = CSR, data = [1::int, 1, 1], indices = [0, 1, 2],
            indptr = [0, 1, 2, 3], shape = (3, 3)\<rparr>
            [[1::int, 2], [3, 4], [5, 6]] [[1::int, 0], [0, 1], [1, 1]] = Inr M
          \<and> format M = CSR \<and> indices M = [0, 1, 2] \<and> indptr M = [0, 1, 2, 3]
          \<and> shape M = (3, 3) \<and> length (data M) = 3
          \<and> data M ! 2 = sum_list (map2 (*) ([[1::int, 0], [0, 1], [1, 1]] ! 2) ([[1::int, 2], [3, 4], [5, 6]] ! 2))
          \<and> data M ! 2 = dense_grad 2 [[1::int, 0], [0, 1], [1, 1]] [[1::int, 2], [3, 4], [5, 6]] ! 2 ! 2)"
proof -
  let ?A = "\<lparr>format = CSR, data = [1::int, 1, 1], indices = [0, 1, 2],
            indptr = [0, 1, 2, 3], shape = (3, 3)\<rparr>"
  have a: "csmatrix_ok ?A"
    by (simp add: csmatrix_ok_def pattern_ok_def major_dim_def minor_dim_def)
  have f: "fits_int32 ?A"
    by (simp add: fits_int32_def in_int32_def)
  have b: "dense_ok (snd (shape ?A)) 2 [[1::int, 2], [3, 4], [5, 6]]" and g: "dense_ok (fst (shape ?A)) 2 [[1::int, 0], [0, 1], [1, 1]]"
    by (simp_all add: dense_ok_def)
  from structured_dot_grad_structured [OF a f b g] obtain M where
    r: "structured_dot_grad ?A [[1::int, 2], [3, 4], [5, 6]] [[1::int, 0], [0, 1], [1, 1]] = Inr M"
    and m: "format M = format ?A" "indices M = indices ?A" "indptr M = indptr ?A"
      "shape M = shape ?A" "length (data M) = length (data ?A)"
    and v: "\<forall>r p. Suc r < length (indptr ?A) \<and> indptr ?A ! r \<le> int p \<and> int p < indptr ?A ! Suc r \<longrightarrow>
                data M ! p =
                  sum_list (map2 (*) ([[1::int, 0], [0, 1], [1, 1]] ! row_of (format ?A) r (nat (indices ?A ! p)))
                                     ([[1::int, 2], [3, 4], [5, 6]] ! col_of (format ?A) r (nat (indices ?A ! p))))
                \<and> data M ! p =
                  dense_grad 2 [[1::int, 0], [0, 1], [1, 1]] [[1::int, 2], [3, 4], [5, 6]] ! row_of (format ?A) r (nat (indices ?A ! p))
                                   ! col_of (format ?A) r (nat (indices ?A ! p))"
    by blast
  from v [rule_format, of 2 2] have
    "data M ! 2 = sum_list (map2 (*) ([[1::int, 0], [0, 1], [1, 1]] ! 2) ([[1::int, 2], [3, 4], [5, 6]] ! 2))
     \<and> data M ! 2 = dense_grad 2 [[1::int, 0], [0, 1], [1, 1]] [[1::int, 2], [3, 4], [5, 6]] ! 2 ! 2"
    by (simp add: row_of_def col_of_def)
  moreover have "format M = CSR" "indices M = [0, 1, 2]" "indptr M = [0, 1, 2, 3]"
    "shape M = (3, 3)" "length (data M) = 3"
    using m by simp_all
  ultimately show ?thesis using a f b g r by auto
qed

text \<open>
  The scenario of the identity pattern: the gradient is stored at the three diagonal
  positions only.
\<close>

lemma structured_dot_grad_identity_example:
  "structured_dot_grad
     \<lparr>format = CSR, data = [1::int, 1, 1], indices = [0, 1, 2],
       indptr = [0, 1, 2, 3], shape = (3, 3)\<rparr>
     [[1::int, 2], [3, 4], [5, 6]] [[1::int, 0], [0, 1], [1, 1]]
   = Inr \<lparr>format = CSR, data = [1, 4, 11], indices = [0, 1, 2], indptr = [0, 1, 2, 3],
           shape = (3, 3)\<rparr>"
  by code_simp

text \<open>
  Claim C2 as stated fails on a valid csc matrix with \<open>2\<^sup>3\<^sup>1 + 1\<close> rows and one
  stored entry in its last row. The extracted row index is \<open>-2\<^sup>3\<^sup>1\<close>, which
  addresses row 1 of the output gradient, so the gradient operator computes the data
  entry \<open>1\<close>, where the dense gradient has \<open>5\<close> at the stored position: the result is
  not the matrix with the pattern of \<open>A\<close> and the entry of the dense gradient.
\<close>

theorem structured_dot_grad_counterexample:
  "csmatrix_ok \<lparr>format = CSC, data = [1::int], indices = [2147483648], indptr = [0, 1],
                 shape = (2147483649, 1)\<rparr>
   \<and> dense_ok 1 1 [[1::int]]
   \<and> dense_ok 2147483649 1 (replicate 2147483648 [1::int] @ [[5]])
   \<and> asarray_int32 [2147483648] = [- 2147483648]
   \<and> StructuredDotGradCSC_perform [- 2147483648] [0, 1]
         [[1::int]] (replicate 2147483648 [1::int] @ [[5]]) = Inr [1]
   \<and> dense_grad 1 (replicate 2147483648 [1::int] @ [[5]]) [[1::int]] ! 2147483648 ! 0 = 5
   \<and> structured_dot_grad
         \<lparr>format = CSC, data = [1::int], indices = [2147483648], indptr = [0, 1],
           shape = (2147483649, 1)\<rparr>
         [[1::int]] (replicate 2147483648 [1::int] @ [[5]])
       \<noteq> Inr \<lparr>format = CSC, data = [5], indices = [2147483648], indptr = [0, 1],
                shape = (2147483649, 1)\<rparr>"
proof -
  let ?A = "\<lparr>format = CSC, data = [1::int], indices = [2147483648], indptr = [0, 1],
             shape = (2147483649, 1)\<rparr>"
  let ?G = "replicate 2147483648 [1::int] @ [[5]]"
  have a: "csmatrix_ok ?A"
    by (simp add: csmatrix_ok_def pattern_ok_def major_dim_def minor_dim_def)
  have b: "dense_ok 1 1 [[1::int]]"
    by (simp add: dense_ok_def)
  have g: "dense_ok 2147483649 1 ?G"
    by (simp add: dense_ok_def list_all_iff)
  have c: "asarray_int32 [2147483648] = [- 2147483648]"
    by (simp add: asarray_int32_def int32_def)
  have p: "CSMProperties_perform ?A = ([1], [- 2147483648], [0, 1], [- 2147483647, 1])"
    by (simp add: CSMProperties_perform_def asarray_int32_def int32_def)
  have row: "getitem ?G (- 2147483648) = Inr [1]"
    by (simp add: getitem_def np_index_def nth_append)
  have rg: "py_range 0 1 = [0]"
    by (simp add: py_range_def upto.simps)
  have d: "StructuredDotGradCSC_perform [- 2147483648] [0, 1] [[1::int]] ?G = Inr [1]"
    using row rg
    by (simp add: StructuredDotGradCSC_perform_def getitem_def setitem_def np_index_def
          np_dot_def)
  have e: "dense_grad 1 ?G [[1::int]] ! 2147483648 ! 0 = 5"
    by (simp add: dense_grad_nth nth_append)
  have "structured_dot_grad ?A [[1::int]] ?G =
          Inr \<lparr>format = CSC, data = [1], indices = [- 2147483648], indptr = [0, 1],
                shape = (- 2147483647, 1)\<rparr>"
    using p d by (simp add: structured_dot_grad_def CSM_perform_def scipy_cs_matrix_def)
  then have f: "structured_dot_grad ?A [[1::int]] ?G
                \<noteq> Inr \<lparr>format = CSC, data = [5], indices = [2147483648], indptr = [0, 1],
                         shape = (2147483649, 1)\<rparr>"
    by simp
  show ?thesis using a b g c d e f by blast
qed

section \<open>The pattern-remap gradient operator computes the sums of the claim\<close>

text \<open>
  Claim C3. Let the forward pattern (pointer \<open>x_indptr\<close>, indices \<open>x_indices\<close>) and the
  incoming gradient's pattern (pointer \<open>g_indptr\<close>, indices \<open>g_indices\<close>) be valid
  patterns of the same format and shape; nothing else relates the two patterns. Then
  \<^verbatim>\<open>CSMGrad.perform\<close> returns a data vector of the length of the original data vector,
  and at every stored position \<open>p\<close> of the forward pattern, of major index \<open>i\<close>, its
  entry is the sum of the incoming gradient's stored values of major index \<open>i\<close> whose
  minor index is the minor index of \<open>p\<close>.
\<close>

theorem CSMGrad_perform_remaps:
  fixes g_data :: "('a::comm_monoid_add) list"
  assumes sh: "length x_shape = 2"
    and mj: "int (length x_indptr) - 1 = major_dim f x_shape"
    and mn: "0 \<le> minor_dim f x_shape"
    and x: "pattern_ok x_indptr x_indices (length x_data) (minor_dim f x_shape)"
    and g: "pattern_ok g_indptr g_indices (length g_data) (minor_dim f x_shape)"
    and lg: "length g_indptr = length x_indptr"
  shows "\<exists>gout. CSMGrad_perform x_data x_indices x_indptr x_shape
                   g_data g_indices g_indptr g_shape = Inr gout
          \<and> length gout = length x_data
          \<and> (\<forall>i p. Suc i < length x_indptr \<and> x_indptr ! i \<le> int p \<and> int p < x_indptr ! Suc i \<longrightarrow>
                gout ! p = stored_sum g_data g_indices
                             (nat (g_indptr ! i)) (nat (g_indptr ! Suc i)) (x_indices ! p))"
proof -
  let ?m = "minor_dim f x_shape"
  have ne: "x_indptr \<noteq> []" using x by (simp add: pattern_ok_def)
  then have k: "length x_indptr - 1 < length x_indptr" by (cases x_indptr) simp_all
  have sp: "bind_err (getitem x_shape 0) (\<lambda>s0.
              bind_err (if int (length x_indptr) - 1 = s0 then getitem x_shape 1 else Inr s0) F)
            = F ?m" for F :: "int \<Rightarrow> error + 'a list"
    using sh mj by (cases f) (auto simp: getitem_ok major_dim_def minor_dim_def)
  have rg: "py_range 0 (int (length x_indptr) - 1) = map int [0..<length x_indptr - 1]"
    using ne py_range_nonneg [of 0 "int (length x_indptr) - 1"]
    by (cases x_indptr) (simp_all add: nat_diff_distrib)
  from csm_grad_loop [OF x g lg mn k, of "replicate (length x_data) 0"] obtain gout where
    r: "for_loop (map int [0..<length x_indptr - 1])
          (csm_grad_major x_indices x_indptr g_data g_indices g_indptr)
          (replicate (nat ?m) 0, replicate (length x_data) 0) = Inr (replicate (nat ?m) 0, gout)"
    and l: "length gout = length x_data"
    and v: "\<forall>i<length x_indptr - 1. \<forall>p. nat (x_indptr ! i) \<le> p \<and> p < nat (x_indptr ! Suc i) \<longrightarrow>
                gout ! p = stored_sum g_data g_indices
                             (nat (g_indptr ! i)) (nat (g_indptr ! Suc i)) (x_indices ! p)"
    by auto
  have "CSMGrad_perform x_data x_indices x_indptr x_shape
                   g_data g_indices g_indptr g_shape = Inr gout"
    unfolding CSMGrad_perform_def sp using mn r by (simp add: np_zeros_def rg)
  moreover have "\<forall>i p. Suc i < length x_indptr \<and> x_indptr ! i \<le> int p \<and> int p < x_indptr ! Suc i \<longrightarrow>
                gout ! p = stored_sum g_data g_indices
                             (nat (g_indptr ! i)) (nat (g_indptr ! Suc i)) (x_indices ! p)"
  proof (intro allI impI)
    fix i p
    assume a: "Suc i < length x_indptr \<and> x_indptr ! i \<le> int p \<and> int p < x_indptr ! Suc i"
    then have "i < length x_indptr - 1" and "nat (x_indptr ! i) \<le> p \<and> p < nat (x_indptr ! Suc i)"
      by auto
    with v show "gout ! p = stored_sum g_data g_indices
                             (nat (g_indptr ! i)) (nat (g_indptr ! Suc i)) (x_indices ! p)"
      by blast
  qed
  ultimately show ?thesis using l by blast
qed

theorem CSMGrad_perform_remaps_witness:
  "pattern_ok [0, 2, 3] [0, 2, 1] (length [10::int, 20, 30]) (minor_dim CSR [2, 3])
   \<and> pattern_ok [0, 2, 4] [2, 2, 0, 1] (length [5::int, 7, 1, 9]) (minor_dim CSR [2, 3])
   \<and> (\<exists>gout. CSMGrad_perform [10::int, 20, 30] [0, 2, 1] [0, 2, 3] [2, 3]
                 [5, 7, 1, 9] [2, 2, 0, 1] [0, 2, 4] [2, 3] = Inr gout
          \<and> length gout = length [10::int, 20, 30]
          \<and> (\<forall>i p. Suc i < length [0::int, 2, 3] \<and> [0, 2, 3] ! i \<le> int p \<and> int p < [0, 2, 3] ! Suc i \<longrightarrow>
                gout ! p = stored_sum [5, 7, 1, 9] [2, 2, 0, 1]
                             (nat ([0, 2, 4] ! i)) (nat ([0, 2, 4] ! Suc i)) ([0, 2, 1] ! p)))"
  using CSMGrad_perform_remaps
          [where x_shape = "[2, 3]" and x_indptr = "[0, 2, 3]" and f = CSR
             and x_indices = "[0, 2, 1]" and x_data = "[10::int, 20, 30]"
             and g_indptr = "[0, 2, 4]" and g_indices = "[2, 2, 0, 1]"
             and g_data = "[5::int, 7, 1, 9]" and g_shape = "[2, 3]"]
  by (simp add: pattern_ok_def major_dim_def minor_dim_def)

section \<open>Signature equality of sparse constants\<close>






section \<open>Gradient rules of extraction and construction\<close>


lemma discrete_dtypes_eq:
  "discrete_dtypes = [''int8'', ''int16'', ''int32'', ''int64'', ''uint8'', ''uint16'', ''uint32'', ''uint64'']"
  by code_simp

lemma continuous_dtypes_eq:
  "continuous_dtypes = [''complex64'', ''complex128'', ''float16'', ''float32'', ''float64'']"
  by code_simp

lemma int32_discrete: "''int32'' \<in> set discrete_dtypes"
  by (simp add: discrete_dtypes_eq)

lemma sparse_attrs:
  assumes "vtype_of x = SparseTensorType f d"
  shows "is_sparse_variable x" and "get_format x = Inr f" and "get_dtype x = Inr d"
    and "as_sparse_variable x = Inr x"
  using assms by (simp_all add: is_sparse_variable_def get_format_def get_dtype_def as_sparse_variable_def)

lemma csm_properties_sparse:
  assumes "vtype_of x = SparseTensorType f d"
  shows "csm_properties x = Inr (Output CSMProperties [x] 0, Output CSMProperties [x] 1,
          Output CSMProperties [x] 2, Output CSMProperties [x] 3)"
  using sparse_attrs(4) [OF assms] by (simp add: csm_properties_def)

lemma csm_properties_dtype:
  "0 < k \<Longrightarrow> get_dtype (Output CSMProperties [x] k) = Inr ''int32''"
  by (simp add: get_dtype_def out_type_def)

lemma get_dtype_leaf: "get_dtype (Variable name (TensorType t)) = Inr t"
  by (simp add: get_dtype_def)

lemma CSM_call_properties:
  "0 < k1 \<Longrightarrow> 0 < k2 \<Longrightarrow> 0 < k3 \<Longrightarrow>
   CSM_call f d0 (Output CSMProperties [x] k1) (Output CSMProperties [x] k2)
     (Output CSMProperties [x] k3)
   = Inr (Output (CSM f) [d0, Output CSMProperties [x] k1, Output CSMProperties [x] k2,
                          Output CSMProperties [x] k3] 0)"
  by (simp add: CSM_call_def csm_properties_dtype int32_discrete)

text \<open>
  Claim C4, as amended. For a sparse input of format \<open>f\<close>: when the incoming gradient
  of the data output is not the disconnected sentinel, the gradient rule of
  \<^verbatim>\<open>CSMProperties\<close> returns the single expression \<^verbatim>\<open>CSM(f)\<close> applied to that
  gradient and to the indices, pointer and shape outputs of the input; when it is the
  disconnected sentinel, the rule returns the zero matrix with the shape of the input.
  The connection pattern of \<^verbatim>\<open>CSM\<close> is \<open>[[True], [False], [False], [False]]\<close>, and its
  gradient rule returns disconnected sentinels for the indices, the pointer and the shape.
\<close>

theorem CSMProperties_grad_repacks:
  assumes "vtype_of csm = SparseTensorType f d"
  shows "(vtype_of g0 \<noteq> DisconnectedType \<longrightarrow>
            CSMProperties_grad csm (g0 # gs) =
              Inr [Output (CSM f) [g0, Output CSMProperties [csm] 1, Output CSMProperties [csm] 2,
                                   Output CSMProperties [csm] 3] 0])
       \<and> (vtype_of g0 = DisconnectedType \<longrightarrow>
            CSMProperties_grad csm (g0 # gs) =
              Inr [Output (CSM f)
                     [Variable ''np.array([])'' (TensorType d),
                      Variable ''np.array([])'' (TensorType ''int32''),
                      Output (TensorOp ''zeros_like'') [Output CSMProperties [csm] 2] 0,
                      Output CSMProperties [csm] 3] 0])
       \<and> CSM_connection_pattern = [[True], [False], [False], [False]]
       \<and> (is_sparse_variable g_out \<longrightarrow>
            (\<exists>g_data. CSM_grad x_data x_indices x_indptr x_shape g_out =
                        Inr [g_data, disconnected, disconnected, disconnected])
            \<and> vtype_of disconnected = DisconnectedType)"
proof -
  have a: "vtype_of g0 \<noteq> DisconnectedType \<longrightarrow>
            CSMProperties_grad csm (g0 # gs) =
              Inr [Output (CSM f) [g0, Output CSMProperties [csm] 1, Output CSMProperties [csm] 2,
                                   Output CSMProperties [csm] 3] 0]"
    using sparse_attrs(2) [OF assms]
    by (simp add: CSMProperties_grad_def csm_properties_sparse [OF assms] CSM_call_properties)
  have z: "get_dtype (Output (TensorOp ''zeros_like'') [Output CSMProperties [csm] 2] 0) = Inr ''int32''"
    by (simp add: get_dtype_def out_type_def first_dtype_def)
  have b: "vtype_of g0 = DisconnectedType \<longrightarrow>
            CSMProperties_grad csm (g0 # gs) =
              Inr [Output (CSM f)
                     [Variable ''np.array([])'' (TensorType d),
                      Variable ''np.array([])'' (TensorType ''int32''),
                      Output (TensorOp ''zeros_like'') [Output CSMProperties [csm] 2] 0,
                      Output CSMProperties [csm] 3] 0]"
    using sparse_attrs(2,3) [OF assms] z
    by (simp add: CSMProperties_grad_def sp_zeros_like_def csm_properties_sparse [OF assms]
          CSM_call_def csm_properties_dtype int32_discrete get_dtype_leaf)
  have c: "is_sparse_variable g_out \<longrightarrow>
            (\<exists>g_data. CSM_grad x_data x_indices x_indptr x_shape g_out =
                        Inr [g_data, disconnected, disconnected, disconnected])"
    by (simp add: CSM_grad_def csm_properties_def as_sparse_variable_def)
  show ?thesis using a b c by (simp add: CSM_connection_pattern_def disconnected_def)
qed

theorem CSMProperties_grad_repacks_witness:
  "vtype_of (Variable ''x'' (SparseTensorType CSC ''float32'')) = SparseTensorType CSC ''float32''
   \<and> CSMProperties_grad (Variable ''x'' (SparseTensorType CSC ''float32''))
         [Variable ''g_data'' (TensorType ''float32''), disconnected, disconnected, disconnected]
       = Inr [Output (CSM CSC)
                [Variable ''g_data'' (TensorType ''float32''),
                 Output CSMProperties [Variable ''x'' (SparseTensorType CSC ''float32'')] 1,
                 Output CSMProperties [Variable ''x'' (SparseTensorType CSC ''float32'')] 2,
                 Output CSMProperties [Variable ''x'' (SparseTensorType CSC ''float32'')] 3] 0]
   \<and> (\<exists>g_data. CSM_grad (Variable ''data'' (TensorType ''float32''))
                   (Variable ''indices'' (TensorType ''int32''))
                   (Variable ''indptr'' (TensorType ''int32''))
                   (Variable ''shape'' (TensorType ''int32''))
                   (Variable ''g_out'' (SparseTensorType CSC ''float32''))
                 = Inr [g_data, disconnected, disconnected, disconnected])"
  using CSMProperties_grad_repacks
          [of "Variable ''x'' (SparseTensorType CSC ''float32'')" CSC "''float32''"
              "Variable ''g_data'' (TensorType ''float32'')"
              "[disconnected, disconnected, disconnected]"
              "Variable ''g_out'' (SparseTensorType CSC ''float32'')"
              "Variable ''data'' (TensorType ''float32'')"
              "Variable ''indices'' (TensorType ''int32'')"
              "Variable ''indptr'' (TensorType ''int32'')"
              "Variable ''shape'' (TensorType ''int32'')"]
  by (simp add: is_sparse_variable_def)

text \<open>
  Claim C4 as stated leaves out the guard of the rule: with a disconnected gradient of
  the data output, the rule does not return \<^verbatim>\<open>CSM\<close> applied to that gradient.
\<close>

theorem CSMProperties_grad_counterexample:
  "CSMProperties_grad (Variable ''x'' (SparseTensorType CSR ''float64''))
     [disconnected, Variable ''g_indices'' (TensorType ''float64''), disconnected, disconnected]
   = Inr [Output (CSM CSR)
            [Variable ''np.array([])'' (TensorType ''float64''),
             Variable ''np.array([])'' (TensorType ''int32''),
             Output (TensorOp ''zeros_like'')
               [Output CSMProperties [Variable ''x'' (SparseTensorType CSR ''float64'')] 2] 0,
             Output CSMProperties [Variable ''x'' (SparseTensorType CSR ''float64'')] 3] 0]
   \<and> CSMProperties_grad (Variable ''x'' (SparseTensorType CSR ''float64''))
     [disconnected, Variable ''g_indices'' (TensorType ''float64''), disconnected, disconnected]
   \<noteq> Inr [Output (CSM CSR)
            [disconnected,
             Output CSMProperties [Variable ''x'' (SparseTensorType CSR ''float64'')] 1,
             Output CSMProperties [Variable ''x'' (SparseTensorType CSR ''float64'')] 2,
             Output CSMProperties [Variable ''x'' (SparseTensorType CSR ''float64'')] 3] 0]"
  by (simp add: CSMProperties_grad_def disconnected_def sp_zeros_like_def csm_properties_def
        as_sparse_variable_def is_sparse_variable_def get_format_def get_dtype_def CSM_call_def
        out_type_def first_dtype_def discrete_dtypes_eq)

section \<open>Gradient of the sum through \<^verbatim>\<open>sp_sum\<close>\<close>


lemma SpSum_regular_grad_sparse:
  assumes ax: "axis = None \<or> axis = Some 0 \<or> axis = Some 1"
    and x: "vtype_of x = SparseTensorType f d"
  shows "\<exists>r. SpSum_regular_grad axis x gz = Inr (Output (SparseFromDense f) [r] 0)"
proof -
  have s: "\<not> is_sparse_variable (Output (TensorOp name) args 0)" for name args
    by (simp add: is_sparse_variable_def out_type_def)
  have m: "\<not> is_sparse_variable (Output Mul [Output (TensorOp n1) a1 0, Output (TensorOp n2) a2 0] 0)"
    for n1 a1 n2 a2
    by (simp add: is_sparse_variable_def out_type_def)
  show ?thesis
    using ax sparse_attrs(2) [OF x]
    by (auto simp: SpSum_regular_grad_def Let_def SparseFromDense_call_def s m)
qed

text \<open>
  Claim C6, as amended. For every axis setting (\<^verbatim>\<open>None\<close>, 0 or 1), \<^verbatim>\<open>sp_sum\<close>
  called without \<^verbatim>\<open>sparse_grad\<close> builds the operator with \<^verbatim>\<open>structured = False\<close>,
  and for an operand of continuous dtype the gradient rule of that operator is the regular
  one: a dense expression converted to the format of the operand. The structured rule is
  the one used when \<^verbatim>\<open>sparse_grad=True\<close> is passed; it is also the default of the
  operator's own constructor.
\<close>

theorem sp_sum_default_regular:
  assumes ax: "axis = None \<or> axis = Some 0 \<or> axis = Some 1"
    and x: "vtype_of x = SparseTensorType f d"
  shows "sp_sum x axis None = Inr (Output (SpSum axis False) [x] 0)
       \<and> (d \<in> set continuous_dtypes \<longrightarrow>
            SpSum_grad axis False x gz = bind_err (SpSum_regular_grad axis x gz) (\<lambda>r. Inr [r])
            \<and> (\<exists>r. SpSum_grad axis False x gz = Inr [Output (SparseFromDense f) [r] 0]))
       \<and> sp_sum x axis (Some True) = Inr (Output (SpSum axis True) [x] 0)
       \<and> (d \<in> set continuous_dtypes \<longrightarrow>
            SpSum_grad axis True x gz = bind_err (SpSum_structured_grad axis x gz) (\<lambda>r. Inr [r]))
       \<and> SpSum_init axis None = Inr (SpSum axis True)"
proof -
  have i: "SpSum_init axis sg = Inr (SpSum axis (case sg of None \<Rightarrow> True | Some b \<Rightarrow> b))" for sg
    using ax by (auto simp: SpSum_init_def)
  have a: "sp_sum x axis sg = Inr (Output (SpSum axis (case sg of None \<Rightarrow> False | Some b \<Rightarrow> b)) [x] 0)"
    for sg
    using sparse_attrs(4) [OF x] by (simp add: sp_sum_def i SpSum_make_node_def)
  from SpSum_regular_grad_sparse [OF ax x, of gz] obtain r where
    r: "SpSum_regular_grad axis x gz = Inr (Output (SparseFromDense f) [r] 0)" by blast
  have g: "d \<in> set continuous_dtypes \<longrightarrow>
            SpSum_grad axis st x gz =
              (if st then bind_err (SpSum_structured_grad axis x gz) (\<lambda>r. Inr [r])
               else bind_err (SpSum_regular_grad axis x gz) (\<lambda>r. Inr [r]))" for st
    using sparse_attrs(3) [OF x] by (simp add: SpSum_grad_def)
  show ?thesis using a [of None] a [of "Some True"] g [of False] g [of True] r i [of None]
    by simp
qed

theorem sp_sum_default_regular_witness:
  "sp_sum (Variable ''x'' (SparseTensorType CSC ''float32'')) (Some 1) None
     = Inr (Output (SpSum (Some 1) False) [Variable ''x'' (SparseTensorType CSC ''float32'')] 0)
   \<and> (\<exists>r. SpSum_grad (Some 1) False (Variable ''x'' (SparseTensorType CSC ''float32''))
              (Variable ''gz'' (TensorType ''float32''))
            = Inr [Output (SparseFromDense CSC) [r] 0])"
proof -
  have "Some 1 = None \<or> Some 1 = Some 0 \<or> Some 1 = Some (1::int)" by simp
  moreover have "vtype_of (Variable ''x'' (SparseTensorType CSC ''float32''))
                 = SparseTensorType CSC ''float32''" by simp
  moreover have "''float32'' \<in> set continuous_dtypes" by (simp add: continuous_dtypes_eq)
  ultimately show ?thesis
    using sp_sum_default_regular
          [of "Some 1" "Variable ''x'' (SparseTensorType CSC ''float32'')" CSC "''float32''"
              "Variable ''gz'' (TensorType ''float32'')"]
    by blast
qed

text \<open>
  Claim C6 as stated fails: the operator that \<^verbatim>\<open>sp_sum(x)\<close> builds has
  \<^verbatim>\<open>structured = False\<close>, and its gradient is not the structured one.
\<close>

theorem sp_sum_default_counterexample:
  "sp_sum (Variable ''x'' (SparseTensorType CSR ''float64'')) None None
     = Inr (Output (SpSum None False) [Variable ''x'' (SparseTensorType CSR ''float64'')] 0)
   \<and> SpSum_grad None False (Variable ''x'' (SparseTensorType CSR ''float64''))
        (Variable ''gz'' (TensorType ''float64''))
     = Inr [Output (SparseFromDense CSR)
              [Output (TensorOp ''second'')
                 [Output DenseFromSparse [Variable ''x'' (SparseTensorType CSR ''float64'')] 0,
                  Variable ''gz'' (TensorType ''float64'')] 0] 0]
   \<and> SpSum_grad None True (Variable ''x'' (SparseTensorType CSR ''float64''))
        (Variable ''gz'' (TensorType ''float64''))
     = Inr [Output Mul
              [Variable ''gz'' (TensorType ''float64''),
               Output (CSM CSR)
                 [Output (TensorOp ''ones_like'')
                    [Output CSMProperties [Variable ''x'' (SparseTensorType CSR ''float64'')] 0] 0,
                  Output CSMProperties [Variable ''x'' (SparseTensorType CSR ''float64'')] 1,
                  Output CSMProperties [Variable ''x'' (SparseTensorType CSR ''float64'')] 2,
                  Output CSMProperties [Variable ''x'' (SparseTensorType CSR ''float64'')] 3] 0] 0]
   \<and> SpSum_grad None False (Variable ''x'' (SparseTensorType CSR ''float64''))
        (Variable ''gz'' (TensorType ''float64''))
     \<noteq> SpSum_grad None True (Variable ''x'' (SparseTensorType CSR ''float64''))
        (Variable ''gz'' (TensorType ''float64''))"
  by (simp add: sp_sum_def SpSum_init_def SpSum_make_node_def as_sparse_variable_def
        is_sparse_variable_def SpSum_grad_def get_dtype_def get_format_def continuous_dtypes_eq
        SpSum_regular_grad_def SpSum_structured_grad_def dense_from_sparse_def
        SparseFromDense_call_def out_type_def first_dtype_def sp_ones_like_def
        csm_properties_def CSM_call_def discrete_dtypes_eq)

section \<open>Gradient rules of stacking\<close>






end
